theory Spec2Isabelle
  imports Complex_Main
begin

section \<open>Data model of \<^verbatim>\<open>run.py\<close>\<close>

text \<open>
  Python floats that end up in the metrics are modelled by their IEEE class: an ordinary
  number (idealised as a real), one of the two infinities, or NaN.  \<open>np_isnan\<close> is
  \<^verbatim>\<open>numpy.isnan\<close>: true for NaN only, false for both infinities.
\<close>

datatype pyfloat = Num real | PosInf | NegInf | NaN

fun np_isnan :: "pyfloat \<Rightarrow> bool" where
  "np_isnan NaN = True"
| "np_isnan (Num x) = False"
| "np_isnan PosInf = False"
| "np_isnan NegInf = False"

fun is_finite :: "pyfloat \<Rightarrow> bool" where
  "is_finite (Num x) = True"
| "is_finite PosInf = False"
| "is_finite NegInf = False"
| "is_finite NaN = False"

datatype error =
    KeyError | IndexError | AttributeError | ValueError | RuntimeError
  | ConfigurationError | BackendError

text \<open>
  The metrics object is a dict of dicts of lists:
  \<^verbatim>\<open>metrics[phase][name]\<close> is the sequence of per-epoch values.
\<close>

type_synonym metrics = "string \<rightharpoonup> (string \<rightharpoonup> pyfloat list)"

text \<open>\<^verbatim>\<open>metrics[phase][name][-1]\<close>, with the KeyError and IndexError of Python.\<close>

definition latest :: "metrics \<Rightarrow> string \<Rightarrow> string \<Rightarrow> error + pyfloat" where
  "latest m phase name =
     (case m phase of
        None \<Rightarrow> Inl KeyError
      | Some d \<Rightarrow>
          (case d name of
             None \<Rightarrow> Inl KeyError
           | Some xs \<Rightarrow> if xs = [] then Inl IndexError else Inr (last xs)))"

text \<open>\<^verbatim>\<open>len(metrics[phase][name])\<close>, \<open>None\<close> when a key is missing.\<close>

definition seq_len :: "metrics \<Rightarrow> string \<Rightarrow> string \<Rightarrow> nat option" where
  "seq_len m phase name =
     (case m phase of
        None \<Rightarrow> None
      | Some d \<Rightarrow> (case d name of None \<Rightarrow> None | Some xs \<Rightarrow> Some (length xs)))"

text \<open>
  The value of the local \<^verbatim>\<open>tv_dataset\<close>: one of the three torchvision classes, or the
  dataset string itself when no branch of lines 41-46 matched.
\<close>

datatype tv_dataset = TV_MNIST | TV_CIFAR10 | TV_CIFAR100 | Name string

text \<open>Lines 40-46.\<close>

definition select_dataset :: "string \<Rightarrow> tv_dataset" where
  "select_dataset dataset =
     (if dataset = ''MNIST'' then TV_MNIST
      else if dataset = ''CIFAR10'' then TV_CIFAR10
      else if dataset = ''CIFAR100'' then TV_CIFAR100
      else Name dataset)"

text \<open>
  Lines 61-70: three independent \<^verbatim>\<open>if\<close>s over the defaults; the result is the pair
  \<open>(in_size, out_size)\<close>.
\<close>

definition sizes :: "tv_dataset \<Rightarrow> int \<times> int" where
  "sizes tv =
     (let in_size = 28 * 28;
          out_size = 10;
          in_size = (if tv = TV_CIFAR10 then 32 * 32 * 3 else in_size);
          (in_size, out_size) =
             (if tv = TV_CIFAR100 then (32 * 32 * 3, 100) else (in_size, out_size));
          (in_size, out_size) =
             (if tv = Name ''TIN'' then (64 * 64 * 3, 200) else (in_size, out_size))
      in (in_size, out_size))"

text \<open>
  A parameter list handed to an optimizer is the result of \<^verbatim>\<open>model.get_fwd_params()\<close> or
  of \<^verbatim>\<open>model.get_decor_params()\<close>: the partition it comes from and the number of tensors
  in it.  Optimizers are values that record how they were constructed.
\<close>

datatype param_group = FwdParams | DecorParams

datatype param_list = Params param_group nat

fun nonempty :: "param_list \<Rightarrow> bool" where
  "nonempty (Params g n) = (0 < n)"

datatype optimizer =
    Adam param_list "real list" real real
  | SGD param_list real

fun params_of :: "optimizer \<Rightarrow> param_group" where
  "params_of (Adam (Params g n) bs ep lr) = g"
| "params_of (SGD (Params g n) lr) = g"

definition betas :: "real list" where
  "betas = [0.9, 0.999]"

definition eps :: real where
  "eps = 1 / 10 ^ 8"

text \<open>
  The constructors \<^verbatim>\<open>torch.optim.Adam\<close> and \<^verbatim>\<open>torch.optim.SGD\<close>, with the checks of their
  arguments: a negative learning rate, a negative \<^verbatim>\<open>eps\<close>, a beta outside \<open>[0, 1)\<close> and an
  empty parameter list are each a ValueError; reading a missing beta is an IndexError.
\<close>

definition torch_optim_Adam :: "param_list \<Rightarrow> real list \<Rightarrow> real \<Rightarrow> real \<Rightarrow> error + optimizer" where
  "torch_optim_Adam params bs ep lr =
     (if lr < 0 \<or> ep < 0 then Inl ValueError
      else (case bs of
              [] \<Rightarrow> Inl IndexError
            | b1 # bs' \<Rightarrow>
                if \<not> (0 \<le> b1 \<and> b1 < 1) then Inl ValueError
                else (case bs' of
                        [] \<Rightarrow> Inl IndexError
                      | b2 # rest \<Rightarrow>
                          if 0 \<le> b2 \<and> b2 < 1 \<and> nonempty params
                          then Inr (Adam params bs ep lr)
                          else Inl ValueError)))"

definition torch_optim_SGD :: "param_list \<Rightarrow> real \<Rightarrow> error + optimizer" where
  "torch_optim_SGD params lr =
     (if lr < 0 \<or> \<not> nonempty params then Inl ValueError else Inr (SGD params lr))"

subsection \<open>Loss functions\<close>

text \<open>
  The two torch losses with \<^verbatim>\<open>reduction="none"\<close>, over two-dimensional tensors given as
  lists of rows (one row of class scores per sample), with float arithmetic idealised as
  real arithmetic.  A tensor has rows of one length.
\<close>

definition rectangular :: "real list list \<Rightarrow> bool" where
  "rectangular t = list_all (\<lambda>row. length row = length (hd t)) t"

text \<open>
  \<^verbatim>\<open>CrossEntropyLoss\<close> on scores and integer class labels.  The label \<open>-100\<close> is torch's
  \<^verbatim>\<open>ignore_index\<close> and gives the loss 0; batch sizes that differ and any other label
  outside the row are the backend's error.
\<close>

definition CrossEntropyLoss :: "real list list \<Rightarrow> int list \<Rightarrow> error + real list" where
  "CrossEntropyLoss input target =
     (if length input \<noteq> length target \<or> \<not> rectangular input \<or>
         list_ex (\<lambda>(x, t). t \<noteq> - 100 \<and> (t < 0 \<or> int (length x) \<le> t)) (zip input target)
      then Inl BackendError
      else Inr (map (\<lambda>(x, t). if t = - 100 then 0
                               else - ln (exp (x ! nat t) / (\<Sum>v\<leftarrow>x. exp v)))
                  (zip input target)))"

text \<open>
  Torch's broadcasting of two sizes of one dimension, and the stretching of a dimension
  of size 1 to size \<open>k\<close>.
\<close>

definition broadcast_dim :: "nat \<Rightarrow> nat \<Rightarrow> nat option" where
  "broadcast_dim a b =
     (if a = b then Some a else if a = 1 then Some b else if b = 1 then Some a else None)"

definition expand :: "nat \<Rightarrow> 'a list \<Rightarrow> 'a list" where
  "expand k xs = (if length xs = k then xs else replicate k (hd xs))"

definition squared_error :: "real list list \<Rightarrow> real list list \<Rightarrow> real list list" where
  "squared_error t u = map (\<lambda>(x, y). map (\<lambda>(a, b). (a - b)\<^sup>2) (zip x y)) (zip t u)"

text \<open>
  \<^verbatim>\<open>MSELoss\<close>: the elementwise squared error of two tensors of one shape; two shapes that
  differ are broadcast, dimension by dimension, and are the backend's error when they
  cannot be.  A tensor without rows has no class dimension to compare.
\<close>

definition MSELoss :: "real list list \<Rightarrow> real list list \<Rightarrow> error + real list list" where
  "MSELoss input onehot =
     (if map length input = map length onehot then Inr (squared_error input onehot)
      else if \<not> (rectangular input \<and> rectangular onehot) then Inl BackendError
      else (case broadcast_dim (length input) (length onehot) of
              None \<Rightarrow> Inl BackendError
            | Some n \<Rightarrow>
                if n = 0 then Inr []
                else (case broadcast_dim (length (hd input)) (length (hd onehot)) of
                        None \<Rightarrow> Inl BackendError
                      | Some c \<Rightarrow>
                          Inr (squared_error (map (expand c) (expand n input))
                                 (map (expand c) (expand n onehot))))))"

text \<open>\<^verbatim>\<open>torch.sum(t, axis=1)\<close> on a list of rows.\<close>

definition torch_sum_axis1 :: "real list list \<Rightarrow> real list" where
  "torch_sum_axis1 t = map sum_list t"

text \<open>The two closures of lines 108 and 111, as tags, and their application.\<close>

datatype loss_fn = CCE_lambda | MSE_lambda

fun apply_loss :: "loss_fn \<Rightarrow> real list list \<Rightarrow> int list \<Rightarrow> real list list \<Rightarrow> error + real list" where
  "apply_loss CCE_lambda input target onehot = CrossEntropyLoss input target"
| "apply_loss MSE_lambda input target onehot =
     (case MSELoss input onehot of
        Inl err \<Rightarrow> Inl err
      | Inr t \<Rightarrow> Inr (torch_sum_axis1 t))"

text \<open>Lines 105-113.\<close>

definition loss_func :: "string \<Rightarrow> loss_fn option" where
  "loss_func loss_func_type =
     (if loss_func_type = ''CCE'' then Some CCE_lambda
      else if loss_func_type = ''MSE'' then Some MSE_lambda
      else None)"

section \<open>The collaborators and the calls made to them\<close>

text \<open>The keyword arguments of \<^verbatim>\<open>train_network\<close> (lines 14-30).\<close>

record tn_args =
  batch_size :: int
  dataset :: string
  device :: string
  bias :: bool
  decorrelation_method :: "string option"
  decor_lr :: real
  n_hidden_layers :: int
  hidden_layer_size :: int
  loss_func_type :: string
  optimizer_type :: string
  fwd_lr :: real
  seed :: int
  nb_epochs :: int
  loud :: bool

text \<open>The defaults of the signature.\<close>

definition default_args :: tn_args where
  "default_args =
     \<lparr>batch_size = 256, dataset = ''MNIST'', device = ''cuda'', bias = True,
      decorrelation_method = Some ''copi'', decor_lr = 1 / 10 ^ 3, n_hidden_layers = 3,
      hidden_layer_size = 1000, loss_func_type = ''CCE'', optimizer_type = ''Adam'',
      fwd_lr = 1 / 10 ^ 2, seed = 42, nb_epochs = 10, loud = True\<rparr>"

text \<open>The keyword arguments of the \<^verbatim>\<open>DecorNet\<close> constructor call (lines 73-82).\<close>

datatype layer = BPLinear

record decor_net_kwargs =
  in_size :: int
  out_size :: int
  kw_n_hidden_layers :: int
  hidden_size :: int
  layer_type :: layer
  decorrelation :: real
  kw_decorrelation_method :: "string option"
  biases :: bool

text \<open>
  Every call that leaves \<^verbatim>\<open>run.py\<close> for a helper of \<^verbatim>\<open>utils\<close> or \<^verbatim>\<open>modules\<close>, and every
  \<^verbatim>\<open>print\<close>, is an event; a run's trace is the list of its events in order.  An
  \<open>CallUpdateMetrics\<close> event carries the phase, the loss function, the epoch and the
  \<^verbatim>\<open>loud\<close> flag; a \<open>CallTrain\<close> event the optimizers, the epoch and the loss function.
\<close>

datatype event =
    CallConstructDataloaders tv_dataset int string
  | CallDecorNet decor_net_kwargs
  | CallUpdateMetrics string "loss_fn option" int bool
  | CallTrain "optimizer option list" int "loss_fn option"
  | Print string
  | CallWandbInit

text \<open>
  The helpers that \<^verbatim>\<open>run.py\<close> imports are parameters of the model.  The world \<open>'w\<close>
  holds everything they own: the network and its tensors, the two data loaders, the
  random state and the tracking sink.  Each helper may raise.  \<open>set_seed\<close> is the effect of
  seeding on the random state; \<open>get_fwd_params\<close> and \<open>get_decor_params\<close> give the number
  of tensors in the list that the network's method of that name returns.
\<close>

record 'w collab =
  set_seed :: "'w \<Rightarrow> int \<Rightarrow> 'w"
  construct_dataloaders :: "'w \<Rightarrow> tv_dataset \<Rightarrow> int \<Rightarrow> string \<Rightarrow> error + 'w"
  DecorNet :: "'w \<Rightarrow> decor_net_kwargs \<Rightarrow> error + 'w"
  model_to :: "'w \<Rightarrow> string \<Rightarrow> error + 'w"
  get_fwd_params :: "'w \<Rightarrow> error + nat"
  get_decor_params :: "'w \<Rightarrow> error + nat"
  init_metric :: metrics
  update_metrics ::
    "'w \<Rightarrow> metrics \<Rightarrow> string \<Rightarrow> loss_fn option \<Rightarrow> int \<Rightarrow> bool \<Rightarrow> error + 'w \<times> metrics"
  train :: "'w \<Rightarrow> optimizer option list \<Rightarrow> int \<Rightarrow> loss_fn option \<Rightarrow> error + 'w"
  wandb_init :: "'w \<Rightarrow> error + 'w"

section \<open>The training loop (lines 116-146)\<close>

record 'w state =
  world :: 'w
  metrics :: metrics
  trace :: "event list"

definition emit :: "event \<Rightarrow> 'w state \<Rightarrow> 'w state" where
  "emit ev st = st\<lparr>trace := trace st @ [ev]\<rparr>"

definition abort_message :: string where
  "abort_message = ''NaN detected, aborting training''"

text \<open>
  Lines 117-138: the two calls of \<^verbatim>\<open>update_metrics\<close> at epoch \<open>e\<close>, first on the training
  data with the caller's \<^verbatim>\<open>loud\<close>, then on the test data with \<^verbatim>\<open>loud=False\<close>.  An error
  comes with the state in which it was raised.
\<close>

definition evaluate_epoch ::
  "'w collab \<Rightarrow> loss_fn option \<Rightarrow> bool \<Rightarrow> int \<Rightarrow> 'w state \<Rightarrow> error \<times> 'w state + 'w state" where
  "evaluate_epoch C lf ld e st =
     (let st1 = emit (CallUpdateMetrics ''train'' lf e ld) st
      in case update_metrics C (world st1) (metrics st1) ''train'' lf e ld of
           Inl err \<Rightarrow> Inl (err, st1)
         | Inr (w1, m1) \<Rightarrow>
             (let st2 = emit (CallUpdateMetrics ''test'' lf e False)
                          (st1\<lparr>world := w1, metrics := m1\<rparr>)
              in case update_metrics C (world st2) (metrics st2) ''test'' lf e False of
                   Inl err \<Rightarrow> Inl (err, st2)
                 | Inr (w2, m2) \<Rightarrow> Inr (st2\<lparr>world := w2, metrics := m2\<rparr>)))"

text \<open>Lines 139-140: the training pass of epoch \<open>e\<close>, made only when \<open>e < nb_epochs\<close>.\<close>

definition train_epoch ::
  "'w collab \<Rightarrow> loss_fn option \<Rightarrow> optimizer option list \<Rightarrow> int \<Rightarrow> int \<Rightarrow> 'w state
     \<Rightarrow> error \<times> 'w state + 'w state" where
  "train_epoch C lf opts nb e st =
     (if e < nb
      then (let st' = emit (CallTrain opts e lf) st
            in case train C (world st') opts e lf of
                 Inl err \<Rightarrow> Inl (err, st')
               | Inr w \<Rightarrow> Inr (st'\<lparr>world := w\<rparr>))
      else Inr st)"

text \<open>
  The condition of line 141.  Python's \<^verbatim>\<open>or\<close> reads the test loss first and reads the
  train loss only when the test loss is not NaN.
\<close>

definition nan_detected :: "metrics \<Rightarrow> error + bool" where
  "nan_detected m =
     (case latest m ''test'' ''loss'' of
        Inl err \<Rightarrow> Inl err
      | Inr x \<Rightarrow>
          if np_isnan x then Inr True
          else (case latest m ''train'' ''loss'' of
                  Inl err \<Rightarrow> Inl err
                | Inr y \<Rightarrow> Inr (np_isnan y)))"

text \<open>How one pass through the loop body ends.\<close>

datatype 'w ctl = Continue "'w state" | Break "'w state" | Fail error "'w state"

text \<open>Lines 117-145: the body of the loop at epoch \<open>e\<close>.\<close>

definition loop_body ::
  "'w collab \<Rightarrow> loss_fn option \<Rightarrow> optimizer option list \<Rightarrow> int \<Rightarrow> bool \<Rightarrow> int \<Rightarrow> 'w state \<Rightarrow> 'w ctl" where
  "loop_body C lf opts nb ld e st =
     (case evaluate_epoch C lf ld e st of
        Inl (err, st') \<Rightarrow> Fail err st'
      | Inr st2 \<Rightarrow>
          (case train_epoch C lf opts nb e st2 of
             Inl (err, st') \<Rightarrow> Fail err st'
           | Inr st3 \<Rightarrow>
               (case nan_detected (metrics st3) of
                  Inl err \<Rightarrow> Fail err st3
                | Inr True \<Rightarrow> Break (emit (Print abort_message) st3)
                | Inr False \<Rightarrow> Continue st3)))"

text \<open>
  The \<^verbatim>\<open>for\<close> loop over the epochs still to run; \<^verbatim>\<open>break\<close> and a raised error both
  leave it.  The result is the state reached and the error, if one was raised.
\<close>

fun for_epochs ::
  "'w collab \<Rightarrow> loss_fn option \<Rightarrow> optimizer option list \<Rightarrow> int \<Rightarrow> bool \<Rightarrow> int list \<Rightarrow> 'w state
     \<Rightarrow> 'w state \<times> error option" where
  "for_epochs C lf opts nb ld [] st = (st, None)"
| "for_epochs C lf opts nb ld (e # es) st =
     (case loop_body C lf opts nb ld e st of
        Continue st' \<Rightarrow> for_epochs C lf opts nb ld es st'
      | Break st' \<Rightarrow> (st', None)
      | Fail err st' \<Rightarrow> (st', Some err))"

section \<open>\<^verbatim>\<open>train_network\<close> and \<^verbatim>\<open>run\<close>\<close>

text \<open>The keyword arguments handed to \<^verbatim>\<open>DecorNet\<close> at lines 73-82.\<close>

definition net_kwargs :: "tn_args \<Rightarrow> decor_net_kwargs" where
  "net_kwargs a =
     \<lparr>in_size = fst (sizes (select_dataset (dataset a))),
      out_size = snd (sizes (select_dataset (dataset a))),
      kw_n_hidden_layers = n_hidden_layers a,
      hidden_size = hidden_layer_size a,
      layer_type = BPLinear,
      decorrelation = decor_lr a,
      kw_decorrelation_method = decorrelation_method a,
      biases = bias a\<rparr>"

text \<open>
  Lines 36-37.  \<^verbatim>\<open>torch.manual_seed\<close> raises a RuntimeError for a seed outside
  \<open>[-2^63, 2^64 - 1]\<close>; \<^verbatim>\<open>np.random.seed\<close>, called next, raises a ValueError for a seed
  outside \<open>[0, 2^32 - 1]\<close>.
\<close>

definition seed_rngs :: "'w collab \<Rightarrow> 'w \<Rightarrow> int \<Rightarrow> error + 'w" where
  "seed_rngs C w s =
     (if s < - (2 ^ 63) \<or> 2 ^ 64 \<le> s then Inl RuntimeError
      else if s < 0 \<or> 2 ^ 32 \<le> s then Inl ValueError
      else Inr (set_seed C w s))"

text \<open>
  Lines 35-83: seeding, the data loaders, the network and its move to the device.  The
  result is the calls made and either the error raised or the world in which the
  optimizers are built.
\<close>

definition set_up :: "'w collab \<Rightarrow> tn_args \<Rightarrow> 'w \<Rightarrow> event list \<times> (error + 'w)" where
  "set_up C a w =
     (case seed_rngs C w (seed a) of
        Inl err \<Rightarrow> ([], Inl err)
      | Inr w0 \<Rightarrow>
          (let tv = select_dataset (dataset a);
               tr1 = [CallConstructDataloaders tv (batch_size a) (device a)]
           in case construct_dataloaders C w0 tv (batch_size a) (device a) of
                Inl err \<Rightarrow> (tr1, Inl err)
              | Inr w1 \<Rightarrow>
                  (let tr2 = tr1 @ [CallDecorNet (net_kwargs a)]
                   in case DecorNet C w1 (net_kwargs a) of
                        Inl err \<Rightarrow> (tr2, Inl err)
                      | Inr w2 \<Rightarrow>
                          (case model_to C w2 (device a) of
                             Inl err \<Rightarrow> (tr2, Inl err)
                           | Inr w3 \<Rightarrow> (tr2, Inr w3)))))"

text \<open>
  Lines 88-98: the forward optimizer, \<^verbatim>\<open>None\<close> when \<^verbatim>\<open>optimizer_type\<close> is neither "Adam"
  nor "SGD".  The parameter list is read first, then the constructor is called; either
  may raise.
\<close>

definition fwd_optimizer :: "'w collab \<Rightarrow> tn_args \<Rightarrow> 'w \<Rightarrow> error + optimizer option" where
  "fwd_optimizer C a w =
     (if optimizer_type a = ''Adam''
      then (case get_fwd_params C w of
              Inl err \<Rightarrow> Inl err
            | Inr n \<Rightarrow>
                (case torch_optim_Adam (Params FwdParams n) betas eps (fwd_lr a) of
                   Inl err \<Rightarrow> Inl err
                 | Inr opt \<Rightarrow> Inr (Some opt)))
      else if optimizer_type a = ''SGD''
      then (case get_fwd_params C w of
              Inl err \<Rightarrow> Inl err
            | Inr n \<Rightarrow>
                (case torch_optim_SGD (Params FwdParams n) (fwd_lr a) of
                   Inl err \<Rightarrow> Inl err
                 | Inr opt \<Rightarrow> Inr (Some opt)))
      else Inr None)"

text \<open>Lines 88-103: the list of optimizers.\<close>

definition optimizers :: "'w collab \<Rightarrow> tn_args \<Rightarrow> 'w \<Rightarrow> error + optimizer option list" where
  "optimizers C a w =
     (case fwd_optimizer C a w of
        Inl err \<Rightarrow> Inl err
      | Inr fwd \<Rightarrow>
          (let optimizers = [fwd]
           in if decorrelation_method a \<noteq> None
              then (case get_decor_params C w of
                      Inl err \<Rightarrow> Inl err
                    | Inr n \<Rightarrow>
                        (case torch_optim_SGD (Params DecorParams n) (decor_lr a) of
                           Inl err \<Rightarrow> Inl err
                         | Inr decor_optimizer \<Rightarrow> Inr (optimizers @ [Some decor_optimizer])))
              else Inr optimizers))"

text \<open>
  \<^verbatim>\<open>train_network\<close> (lines 14-146).  The result is the trace of the run and either the
  error that ended it or the metrics returned at line 146.  The loss function of lines
  105-113 is \<open>loss_func\<close>.  \<^verbatim>\<open>range(nb_epochs + 1)\<close> is the list \<open>[0..nb_epochs]\<close>, empty
  when \<open>nb_epochs < 0\<close>.
\<close>

definition train_network :: "'w collab \<Rightarrow> tn_args \<Rightarrow> 'w \<Rightarrow> event list \<times> (error + metrics)" where
  "train_network C a w =
     (case set_up C a w of
        (tr, Inl err) \<Rightarrow> (tr, Inl err)
      | (tr, Inr w3) \<Rightarrow>
          (case optimizers C a w3 of
             Inl err \<Rightarrow> (tr, Inl err)
           | Inr opts \<Rightarrow>
               (case for_epochs C (loss_func (loss_func_type a)) opts
                       (nb_epochs a) (loud a) [0..nb_epochs a]
                       \<lparr>world = w3, metrics = init_metric C, trace = tr\<rparr> of
                  (st, Some err) \<Rightarrow> (trace st, Inl err)
                | (st, None) \<Rightarrow> (trace st, Inr (metrics st)))))"

text \<open>
  \<^verbatim>\<open>run\<close> (lines 150-184) on a configuration that has every key.  The configuration holds
  the arguments of \<^verbatim>\<open>train_network\<close>, passed on one by one at lines 166-182; its tracking
  settings are read by \<^verbatim>\<open>wandb.init\<close> alone.  \<^verbatim>\<open>run\<close> ends with an error, by \<^verbatim>\<open>exit()\<close>, or
  after printing the metrics.
\<close>

datatype outcome = Raised error | Exited | Printed metrics

definition run :: "'w collab \<Rightarrow> tn_args \<Rightarrow> 'w \<Rightarrow> event list \<times> outcome" where
  "run C config w =
     (case wandb_init C w of
        Inl err \<Rightarrow> ([CallWandbInit], Raised err)
      | Inr w1 \<Rightarrow>
          (let config = (if decorrelation_method config = Some ''None''
                         then config\<lparr>decorrelation_method := None\<rparr> else config)
           in if decorrelation_method config = Some ''foldiak''
              then ([CallWandbInit], Exited)
              else (case train_network C config w1 of
                      (tr, Inl err) \<Rightarrow> (CallWandbInit # tr, Raised err)
                    | (tr, Inr m) \<Rightarrow> (CallWandbInit # tr, Printed m))))"

section \<open>The helpers of \<^verbatim>\<open>utils\<close> and \<^verbatim>\<open>modules\<close>\<close>

text \<open>
  Modelled from the spec: \<^verbatim>\<open>init_metric\<close> of \<^verbatim>\<open>utils\<close>, which is not among the sources.
  Section 3 of the specification: a mapping from the phase names "train" and "test" to
  a mapping from the metric names "loss" and "accuracy" to a sequence of per-epoch
  values, empty before the first evaluation.
\<close>

definition init_metric_spec :: metrics where
  "init_metric_spec =
     [''train'' \<mapsto> [''loss'' \<mapsto> [], ''accuracy'' \<mapsto> []],
      ''test'' \<mapsto> [''loss'' \<mapsto> [], ''accuracy'' \<mapsto> []]]"

text \<open>
  Modelled from the spec: the \<^verbatim>\<open>record\<close> operation of the metric tracker (section 4.4),
  which \<^verbatim>\<open>update_metrics\<close> of \<^verbatim>\<open>utils\<close> performs; it appends the loss and the accuracy
  to the two sequences of the phase.
\<close>

definition record_metric :: "metrics \<Rightarrow> string \<Rightarrow> pyfloat \<Rightarrow> pyfloat \<Rightarrow> error + metrics" where
  "record_metric m phase loss_value accuracy_value =
     (case m phase of
        None \<Rightarrow> Inl KeyError
      | Some d \<Rightarrow>
          (case d ''loss'' of
             None \<Rightarrow> Inl KeyError
           | Some ls \<Rightarrow>
               (case d ''accuracy'' of
                  None \<Rightarrow> Inl KeyError
                | Some accs \<Rightarrow>
                    Inr (m(phase \<mapsto> d(''loss'' \<mapsto> ls @ [loss_value],
                                          ''accuracy'' \<mapsto> accs @ [accuracy_value]))))))"

text \<open>
  Modelled from the spec: \<^verbatim>\<open>update_metrics\<close> of \<^verbatim>\<open>utils\<close>, which is not among the sources.
  Section 4.5, step 1: a forward-only pass over the data of the phase computes the mean
  loss and the accuracy, which are recorded; no parameter is updated.  The pass itself
  is the parameter \<open>evaluate\<close>.
\<close>

definition update_metrics_spec ::
  "('w \<Rightarrow> string \<Rightarrow> pyfloat \<times> pyfloat)
     \<Rightarrow> 'w \<Rightarrow> metrics \<Rightarrow> string \<Rightarrow> loss_fn option \<Rightarrow> int \<Rightarrow> bool \<Rightarrow> error + 'w \<times> metrics" where
  "update_metrics_spec evaluate w m phase lf e ld =
     (case record_metric m phase (fst (evaluate w phase)) (snd (evaluate w phase)) of
        Inl err \<Rightarrow> Inl err
      | Inr m' \<Rightarrow> Inr (w, m'))"

text \<open>
  Modelled from the spec: \<^verbatim>\<open>construct_dataloaders\<close> of \<^verbatim>\<open>utils\<close>, which is not among the
  sources.  Section 7: an unknown dataset is a configuration error, surfaced at once.
  The datasets known are the four of the table of section 6.  Building the loaders of
  a known dataset is the parameter \<open>load\<close>.
\<close>

definition known_dataset :: "tv_dataset \<Rightarrow> bool" where
  "known_dataset tv = (tv = TV_MNIST \<or> tv = TV_CIFAR10 \<or> tv = TV_CIFAR100 \<or> tv = Name ''TIN'')"

definition construct_dataloaders_spec ::
  "('w \<Rightarrow> tv_dataset \<Rightarrow> int \<Rightarrow> string \<Rightarrow> 'w) \<Rightarrow> 'w \<Rightarrow> tv_dataset \<Rightarrow> int \<Rightarrow> string \<Rightarrow> error + 'w" where
  "construct_dataloaders_spec load w tv bs dev =
     (if known_dataset tv then Inr (load w tv bs dev) else Inl ConfigurationError)"

text \<open>
  Modelled from the spec: the constructor of \<^verbatim>\<open>DecorNet\<close> of \<^verbatim>\<open>modules\<close>, which is not among
  the sources.  Section 4.2: constructing with a negative number of hidden layers or
  with a non-positive size fails with a configuration error.  Building a valid network
  is the parameter \<open>build\<close>.
\<close>

definition DecorNet_spec ::
  "('w \<Rightarrow> decor_net_kwargs \<Rightarrow> 'w) \<Rightarrow> 'w \<Rightarrow> decor_net_kwargs \<Rightarrow> error + 'w" where
  "DecorNet_spec build w kw =
     (if kw_n_hidden_layers kw < 0 \<or> in_size kw \<le> 0 \<or> out_size kw \<le> 0 \<or> hidden_size kw \<le> 0
      then Inl ConfigurationError
      else Inr (build w kw))"

text \<open>
  Modelled from the spec: \<^verbatim>\<open>train\<close> of \<^verbatim>\<open>utils\<close>, which is not among the sources.
  Section 4.3: for each training batch, in order, every optimizer handed over is stepped
  once, the forward optimizer first.  The step of one optimizer on one batch (loss,
  backward pass, update, zeroing of the gradients) is the parameter \<open>step\<close>, the number of
  training batches the parameter \<open>n_batches\<close>.  Stepping \<^verbatim>\<open>None\<close> is Python's
  AttributeError.
\<close>

fun step_all :: "(optimizer \<Rightarrow> nat \<Rightarrow> 'w \<Rightarrow> 'w) \<Rightarrow> optimizer option list \<Rightarrow> nat \<Rightarrow> 'w \<Rightarrow> error + 'w" where
  "step_all step [] b w = Inr w"
| "step_all step (None # os) b w = Inl AttributeError"
| "step_all step (Some opt # os) b w = step_all step os b (step opt b w)"

fun train_batches ::
  "(optimizer \<Rightarrow> nat \<Rightarrow> 'w \<Rightarrow> 'w) \<Rightarrow> optimizer option list \<Rightarrow> nat list \<Rightarrow> 'w \<Rightarrow> error + 'w" where
  "train_batches step opts [] w = Inr w"
| "train_batches step opts (b # bs) w =
     (case step_all step opts b w of
        Inl err \<Rightarrow> Inl err
      | Inr w' \<Rightarrow> train_batches step opts bs w')"

definition train_spec ::
  "(optimizer \<Rightarrow> nat \<Rightarrow> 'w \<Rightarrow> 'w) \<Rightarrow> ('w \<Rightarrow> nat)
     \<Rightarrow> 'w \<Rightarrow> optimizer option list \<Rightarrow> int \<Rightarrow> loss_fn option \<Rightarrow> error + 'w" where
  "train_spec step n_batches w opts e lf = train_batches step opts [0..<n_batches w] w"

text \<open>
  A small simulated environment for concrete runs.  Its world is the list of the
  parameter groups stepped so far, latest last; every training pass has one batch; the
  loss that an evaluation reports is given by \<open>loss_at\<close> from the number of steps taken;
  the accuracy is always 0.
\<close>

definition sim :: "(nat \<Rightarrow> pyfloat) \<Rightarrow> param_group list collab" where
  "sim loss_at =
     \<lparr>set_seed = (\<lambda>w s. w),
      construct_dataloaders = construct_dataloaders_spec (\<lambda>w tv bs dev. w),
      DecorNet = DecorNet_spec (\<lambda>w kw. w),
      model_to = (\<lambda>w dev. Inr w),
      get_fwd_params = (\<lambda>w. Inr 2),
      get_decor_params = (\<lambda>w. Inr 1),
      init_metric = init_metric_spec,
      update_metrics = update_metrics_spec (\<lambda>w phase. (loss_at (length w), Num 0)),
      train = train_spec (\<lambda>opt b w. w @ [params_of opt]) (\<lambda>w. 1),
      wandb_init = Inr\<rparr>"

text \<open>Small arguments for concrete runs: the defaults, without decorrelation, SGD.\<close>

definition small_args :: "int \<Rightarrow> tn_args" where
  "small_args nb = default_args\<lparr>decorrelation_method := None, optimizer_type := ''SGD'', nb_epochs := nb\<rparr>"

text \<open>Two scripts for the simulated loss: always \<open>x\<close>; NaN once \<open>n\<close> steps were taken.\<close>

definition constant_loss :: "pyfloat \<Rightarrow> nat \<Rightarrow> pyfloat" where
  "constant_loss x k = x"

definition nan_from :: "nat \<Rightarrow> nat \<Rightarrow> pyfloat" where
  "nan_from n k = (if n \<le> k then NaN else Num 1)"

text \<open>The state in which the simulated loop starts, and its loss function and optimizers.\<close>

definition start :: "param_group list state" where
  "start = \<lparr>world = [], metrics = init_metric_spec, trace = []\<rparr>"

definition sim_lf :: "loss_fn option" where
  "sim_lf = Some CCE_lambda"

definition sim_opts :: "optimizer option list" where
  "sim_opts = [Some (SGD (Params FwdParams 2) (1 / 100))]"

section \<open>Notions used in the statements\<close>

text \<open>The calls of one full pass through the loop body at epoch \<open>e\<close>, in order.\<close>

definition epoch_calls :: "loss_fn option \<Rightarrow> optimizer option list \<Rightarrow> int \<Rightarrow> bool \<Rightarrow> int \<Rightarrow> event list" where
  "epoch_calls lf opts nb ld e =
     [CallUpdateMetrics ''train'' lf e ld, CallUpdateMetrics ''test'' lf e False]
     @ (if e < nb then [CallTrain opts e lf] else [])"

text \<open>The two calls of the set-up that reach the loop.\<close>

definition setup_calls :: "tn_args \<Rightarrow> event list" where
  "setup_calls a =
     [CallConstructDataloaders (select_dataset (dataset a)) (batch_size a) (device a),
      CallDecorNet (net_kwargs a)]"

text \<open>The list of optimizers of a run: the one built in the world that the set-up leaves.\<close>

definition run_optimizers :: "'w collab \<Rightarrow> tn_args \<Rightarrow> 'w \<Rightarrow> error + optimizer option list" where
  "run_optimizers C a w =
     (case snd (set_up C a w) of
        Inl err \<Rightarrow> Inl err
      | Inr w3 \<Rightarrow> optimizers C a w3)"

text \<open>A seed that both \<^verbatim>\<open>torch.manual_seed\<close> and \<^verbatim>\<open>np.random.seed\<close> accept.\<close>

definition seed_accepted :: "int \<Rightarrow> bool" where
  "seed_accepted s = (0 \<le> s \<and> s < 2 ^ 32)"

text \<open>The run printed the abort message, that is, it left the loop by \<^verbatim>\<open>break\<close>.\<close>

definition aborted :: "event list \<Rightarrow> bool" where
  "aborted tr = (Print abort_message \<in> set tr)"

text \<open>An event that is a call of \<^verbatim>\<open>update_metrics\<close> or of \<^verbatim>\<open>train\<close>.\<close>

fun loop_call :: "event \<Rightarrow> bool" where
  "loop_call (CallUpdateMetrics phase lf e ld) = True"
| "loop_call (CallTrain opts e lf) = True"
| "loop_call (CallConstructDataloaders tv bs dev) = False"
| "loop_call (CallDecorNet kw) = False"
| "loop_call (Print s) = False"
| "loop_call CallWandbInit = False"

text \<open>
  An event carries the loss function \<open>lf\<close> and the optimizers \<open>opts\<close> wherever it
  carries a loss function or optimizers at all.
\<close>

fun carries :: "loss_fn option \<Rightarrow> optimizer option list \<Rightarrow> event \<Rightarrow> bool" where
  "carries lf opts (CallUpdateMetrics phase lf' e ld) = (lf' = lf)"
| "carries lf opts (CallTrain opts' e lf') = (opts' = opts \<and> lf' = lf)"
| "carries lf opts (CallConstructDataloaders tv bs dev) = True"
| "carries lf opts (CallDecorNet kw) = True"
| "carries lf opts (Print s) = True"
| "carries lf opts CallWandbInit = True"

text \<open>All four sequences of the metrics have length \<open>n\<close>.\<close>

definition all_len :: "metrics \<Rightarrow> int \<Rightarrow> bool" where
  "all_len m n =
     (map_option int (seq_len m ''train'' ''loss'') = Some n \<and>
      map_option int (seq_len m ''train'' ''accuracy'') = Some n \<and>
      map_option int (seq_len m ''test'' ''loss'') = Some n \<and>
      map_option int (seq_len m ''test'' ''accuracy'') = Some n)"

text \<open>An entry of the optimizer list that is an optimizer over the decorrelation parameters.\<close>

fun over_decor_params :: "optimizer option \<Rightarrow> bool" where
  "over_decor_params None = False"
| "over_decor_params (Some opt) = (params_of opt = DecorParams)"


section \<open>The trace of the loop\<close>

text \<open>What each way of leaving the loop body adds to the trace.\<close>

lemma evaluate_epoch_trace:
  "evaluate_epoch C lf ld e st = Inr st2 \<Longrightarrow>
     trace st2 = trace st @ [CallUpdateMetrics ''train'' lf e ld, CallUpdateMetrics ''test'' lf e False]"
  by (auto simp: evaluate_epoch_def emit_def Let_def split: sum.splits prod.splits)

lemma evaluate_epoch_fail:
  "evaluate_epoch C lf ld e st = Inl (err, st') \<Longrightarrow>
     trace st' = trace st @ [CallUpdateMetrics ''train'' lf e ld] \<or>
     trace st' = trace st @ [CallUpdateMetrics ''train'' lf e ld, CallUpdateMetrics ''test'' lf e False]"
  by (auto simp: evaluate_epoch_def emit_def Let_def split: sum.splits prod.splits)

lemma train_epoch_trace:
  "train_epoch C lf opts nb e st = Inr st3 \<Longrightarrow>
     trace st3 = trace st @ (if e < nb then [CallTrain opts e lf] else []) \<and> metrics st3 = metrics st"
  by (auto simp: train_epoch_def emit_def Let_def split: sum.splits if_splits)

lemma train_epoch_fail:
  "train_epoch C lf opts nb e st = Inl (err, st') \<Longrightarrow>
     e < nb \<and> trace st' = trace st @ [CallTrain opts e lf] \<and> metrics st' = metrics st"
  by (auto simp: train_epoch_def emit_def Let_def split: sum.splits if_splits)

lemma loop_body_Continue:
  "loop_body C lf opts nb ld e st = Continue st' \<Longrightarrow> trace st' = trace st @ epoch_calls lf opts nb ld e"
  by (auto simp: loop_body_def epoch_calls_def split: sum.splits prod.splits bool.splits
      dest!: evaluate_epoch_trace train_epoch_trace)

lemma loop_body_Break:
  "loop_body C lf opts nb ld e st = Break st' \<Longrightarrow>
     trace st' = trace st @ epoch_calls lf opts nb ld e @ [Print abort_message]"
  by (auto simp: loop_body_def epoch_calls_def emit_def split: sum.splits prod.splits bool.splits
      dest!: evaluate_epoch_trace train_epoch_trace)

lemma loop_body_Fail:
  "loop_body C lf opts nb ld e st = Fail err st' \<Longrightarrow>
     \<exists>k. trace st' = trace st @ take k (epoch_calls lf opts nb ld e)"
proof -
  assume a: "loop_body C lf opts nb ld e st = Fail err st'"
  let ?c = "epoch_calls lf opts nb ld e"
  have "trace st' = trace st @ take 1 ?c \<or> trace st' = trace st @ take 2 ?c \<or> trace st' = trace st @ take 3 ?c"
    using a
    by (auto simp: loop_body_def epoch_calls_def split: sum.splits prod.splits bool.splits
      dest!: evaluate_epoch_trace train_epoch_trace evaluate_epoch_fail train_epoch_fail)
  then show ?thesis by blast
qed


lemma for_epochs_trace:
  "for_epochs C lf opts nb ld es st = (st', r) \<Longrightarrow>
     (r = None \<and> trace st' = trace st @ concat (map (epoch_calls lf opts nb ld) es)) \<or>
     (r = None \<and> (\<exists>k<length es. trace st' =
        trace st @ concat (map (epoch_calls lf opts nb ld) (take (Suc k) es)) @ [Print abort_message])) \<or>
     (r \<noteq> None \<and> (\<exists>k<length es. \<exists>j. trace st' =
        trace st @ concat (map (epoch_calls lf opts nb ld) (take k es))
          @ take j (epoch_calls lf opts nb ld (es ! k))))"
proof (induction es arbitrary: st)
  case Nil
  then show ?case by simp
next
  case (Cons e es)
  show ?case
  proof (cases "loop_body C lf opts nb ld e st")
    case (Continue st1)
    then have run: "for_epochs C lf opts nb ld es st1 = (st', r)"
      using Cons.prems by simp
    have tr: "trace st1 = trace st @ epoch_calls lf opts nb ld e"
      using Continue by (rule loop_body_Continue)
    from Cons.IH [OF run] show ?thesis
    proof (elim disjE conjE exE)
      assume "r = None" "trace st' = trace st1 @ concat (map (epoch_calls lf opts nb ld) es)"
      then show ?thesis using tr by simp
    next
      fix k
      assume "r = None" "k < length es"
        "trace st' = trace st1 @ concat (map (epoch_calls lf opts nb ld) (take (Suc k) es)) @ [Print abort_message]"
      then have "Suc k < length (e # es) \<and> trace st' =
        trace st @ concat (map (epoch_calls lf opts nb ld) (take (Suc (Suc k)) (e # es))) @ [Print abort_message]"
        using tr by simp
      then show ?thesis using \<open>r = None\<close> by blast
    next
      fix k j
      assume "r \<noteq> None" "k < length es"
        "trace st' = trace st1 @ concat (map (epoch_calls lf opts nb ld) (take k es))
          @ take j (epoch_calls lf opts nb ld (es ! k))"
      then have "Suc k < length (e # es) \<and> trace st' =
        trace st @ concat (map (epoch_calls lf opts nb ld) (take (Suc k) (e # es)))
          @ take j (epoch_calls lf opts nb ld ((e # es) ! Suc k))"
        using tr by simp
      then show ?thesis using \<open>r \<noteq> None\<close> by blast
    qed
  next
    case (Break st1)
    then have "st' = st1" "r = None" using Cons.prems by simp_all
    moreover have "trace st1 = trace st @ epoch_calls lf opts nb ld e @ [Print abort_message]"
      using Break by (rule loop_body_Break)
    ultimately have "0 < length (e # es) \<and> trace st' =
        trace st @ concat (map (epoch_calls lf opts nb ld) (take (Suc 0) (e # es))) @ [Print abort_message]"
      by simp
    then show ?thesis using \<open>r = None\<close> by blast
  next
    case (Fail err st1)
    then have "st' = st1" "r = Some err" using Cons.prems by simp_all
    moreover obtain j where "trace st1 = trace st @ take j (epoch_calls lf opts nb ld e)"
      using loop_body_Fail [OF Fail] by blast
    ultimately have "0 < length (e # es) \<and> trace st' =
        trace st @ concat (map (epoch_calls lf opts nb ld) (take 0 (e # es)))
          @ take j (epoch_calls lf opts nb ld ((e # es) ! 0))"
      by simp
    then show ?thesis using \<open>r = Some err\<close> by blast
  qed
qed

lemma epoch_calls_loop_call: "list_all loop_call (epoch_calls lf opts nb ld e)"
  by (simp add: epoch_calls_def)

lemma epoch_calls_carries: "list_all (carries lf opts) (epoch_calls lf opts nb ld e)"
  by (simp add: epoch_calls_def)

lemma epoch_calls_no_print: "Print s \<notin> set (epoch_calls lf opts nb ld e)"
  by (simp add: epoch_calls_def)

lemma epoch_calls_take_no_print: "Print s \<notin> set (take j (epoch_calls lf opts nb ld e))"
  using epoch_calls_no_print by (metis in_set_takeD)

lemma epochs_no_print: "Print s \<notin> set (concat (map (epoch_calls lf opts nb ld) es))"
  by (simp add: epoch_calls_no_print)

lemma epochs_carries: "list_all (carries lf opts) (concat (map (epoch_calls lf opts nb ld) es))"
  by (induction es) (simp_all add: epoch_calls_carries)

lemma take_carries: "list_all P xs \<Longrightarrow> list_all P (take j xs)"
  by (auto simp: list_all_iff dest: in_set_takeD)

lemma for_epochs_carries:
  assumes "for_epochs C lf opts nb ld es st = (st', r)" and "list_all (carries lf opts) (trace st)"
  shows "list_all (carries lf opts) (trace st')"
  using for_epochs_trace [OF assms(1)] assms(2)
  by (auto simp: epochs_carries epoch_calls_carries take_carries)

lemma aborted_calls: "aborted (tr @ concat (map (epoch_calls lf opts nb ld) es)) = aborted tr"
  by (simp add: aborted_def epoch_calls_no_print)

lemma aborted_calls_take:
  "aborted (tr @ concat (map (epoch_calls lf opts nb ld) es) @ take j (epoch_calls lf opts nb ld e))
     = aborted tr"
  using epoch_calls_take_no_print [of abort_message j lf opts nb ld e]
  by (simp add: aborted_def epoch_calls_no_print)

lemma for_epochs_aborted:
  assumes "for_epochs C lf opts nb ld es st = (st', r)" and "\<not> aborted (trace st)" and "aborted (trace st')"
  shows "r = None \<and> (\<exists>k<length es. trace st' =
        trace st @ concat (map (epoch_calls lf opts nb ld) (take (Suc k) es)) @ [Print abort_message])"
  using for_epochs_trace [OF assms(1)] assms(2,3)
  by (auto simp: aborted_calls aborted_calls_take)

lemma for_epochs_completed:
  assumes "for_epochs C lf opts nb ld es st = (st', None)" and "\<not> aborted (trace st')"
  shows "trace st' = trace st @ concat (map (epoch_calls lf opts nb ld) es)"
  using for_epochs_trace [OF assms(1)] assms(2)
  by (auto simp: aborted_def)

section \<open>The metrics under the metric tracker of the specification\<close>

lemma record_metric_len:
  assumes "all_len m n" and "phase = ''train'' \<or> phase = ''test''"
  shows "\<exists>m'. record_metric m phase l a = Inr m' \<and>
           latest m' phase ''loss'' = Inr l \<and>
           (\<forall>p k. seq_len m' p k = (if p = phase \<and> (k = ''loss'' \<or> k = ''accuracy'') then map_option Suc (seq_len m p k) else seq_len m p k)) \<and>
           (\<forall>p. p \<noteq> phase \<longrightarrow> latest m' p ''loss'' = latest m p ''loss'')"
  using assms
  by (auto simp: all_len_def record_metric_def seq_len_def latest_def split: option.splits)

lemma spec_evaluate_epoch:
  assumes um: "update_metrics C = update_metrics_spec ev" and len: "all_len (metrics st) n"
  shows "\<exists>st2. evaluate_epoch C lf ld e st = Inr st2 \<and> all_len (metrics st2) (n + 1) \<and>
           world st2 = world st \<and>
           latest (metrics st2) ''train'' ''loss'' = Inr (fst (ev (world st) ''train'')) \<and>
           latest (metrics st2) ''test'' ''loss'' = Inr (fst (ev (world st) ''test''))"
proof -
  obtain m1 where m1: "record_metric (metrics st) ''train'' (fst (ev (world st) ''train'')) (snd (ev (world st) ''train'')) = Inr m1"
    and l1: "latest m1 ''train'' ''loss'' = Inr (fst (ev (world st) ''train''))"
    and s1: "\<forall>p k. seq_len m1 p k = (if p = ''train'' \<and> (k = ''loss'' \<or> k = ''accuracy'') then map_option Suc (seq_len (metrics st) p k) else seq_len (metrics st) p k)"
    using record_metric_len [OF len, of "''train''"] by blast
  have a1: "map_option int (seq_len m1 ''train'' ''loss'') = Some (n + 1)"
       "map_option int (seq_len m1 ''train'' ''accuracy'') = Some (n + 1)"
       "map_option int (seq_len m1 ''test'' ''loss'') = Some n"
       "map_option int (seq_len m1 ''test'' ''accuracy'') = Some n"
    using len s1 by (auto simp: all_len_def)
  obtain d where d: "m1 ''test'' = Some d" and dl: "d ''loss'' \<noteq> None" and da: "d ''accuracy'' \<noteq> None"
    using a1 by (auto simp: seq_len_def split: option.splits)
  obtain ls accs where ls: "d ''loss'' = Some ls" and accs: "d ''accuracy'' = Some accs"
    using dl da by auto
  define m2 where "m2 = m1(''test'' \<mapsto> d(''loss'' \<mapsto> ls @ [fst (ev (world st) ''test'')],
                                          ''accuracy'' \<mapsto> accs @ [snd (ev (world st) ''test'')]))"
  have r2: "record_metric m1 ''test'' (fst (ev (world st) ''test'')) (snd (ev (world st) ''test'')) = Inr m2"
    by (simp add: record_metric_def d ls accs m2_def)
  have len2: "all_len m2 (n + 1)"
    using a1 d ls accs by (auto simp: all_len_def seq_len_def m2_def split: option.splits)
  have l2: "latest m2 ''test'' ''loss'' = Inr (fst (ev (world st) ''test''))"
    by (simp add: latest_def m2_def)
  have l2': "latest m2 ''train'' ''loss'' = Inr (fst (ev (world st) ''train''))"
    using l1 by (simp add: latest_def m2_def)
  have "evaluate_epoch C lf ld e st =
      Inr (st\<lparr>trace := trace st @ [CallUpdateMetrics ''train'' lf e ld, CallUpdateMetrics ''test'' lf e False],
               world := world st, metrics := m2\<rparr>)"
    by (simp add: evaluate_epoch_def um update_metrics_spec_def emit_def m1 r2)
  then show ?thesis using len2 l2 l2' by simp
qed


lemma spec_loop_body_len:
  assumes um: "update_metrics C = update_metrics_spec ev" and len: "all_len (metrics st) n"
    and body: "loop_body C lf opts nb ld e st = Continue st' \<or> loop_body C lf opts nb ld e st = Break st'"
  shows "all_len (metrics st') (n + 1)"
proof -
  obtain st2 where ev: "evaluate_epoch C lf ld e st = Inr st2" and len2: "all_len (metrics st2) (n + 1)"
    using spec_evaluate_epoch [OF um len] by blast
  show ?thesis
  proof (cases "train_epoch C lf opts nb e st2")
    case (Inl p)
    then show ?thesis using body ev by (auto simp: loop_body_def split: prod.splits)
  next
    case (Inr st3)
    then have "metrics st3 = metrics st2" by (simp add: train_epoch_trace)
    then show ?thesis using body ev Inr len2
      by (auto simp: loop_body_def emit_def split: sum.splits bool.splits)
  qed
qed

lemma spec_for_epochs_len:
  assumes um: "update_metrics C = update_metrics_spec ev"
  shows "for_epochs C lf opts nb ld es st = (st', None) \<Longrightarrow> all_len (metrics st) n \<Longrightarrow>
     (trace st' = trace st @ concat (map (epoch_calls lf opts nb ld) es) \<and>
        all_len (metrics st') (n + int (length es))) \<or>
     (\<exists>k<length es. trace st' =
        trace st @ concat (map (epoch_calls lf opts nb ld) (take (Suc k) es)) @ [Print abort_message] \<and>
        all_len (metrics st') (n + int (Suc k)))"
proof (induction es arbitrary: st n)
  case Nil
  then show ?case by simp
next
  case (Cons e es)
  show ?case
  proof (cases "loop_body C lf opts nb ld e st")
    case (Continue st1)
    then have run: "for_epochs C lf opts nb ld es st1 = (st', None)"
      using Cons.prems by simp
    have tr: "trace st1 = trace st @ epoch_calls lf opts nb ld e"
      using Continue by (rule loop_body_Continue)
    have len1: "all_len (metrics st1) (n + 1)"
      using spec_loop_body_len [OF um Cons.prems(2)] Continue by blast
    from Cons.IH [OF run len1] show ?thesis
    proof (elim disjE conjE exE)
      assume A: "trace st' = trace st1 @ concat (map (epoch_calls lf opts nb ld) es)"
        and L: "all_len (metrics st') (n + 1 + int (length es))"
      have e1: "n + 1 + int (length es) = n + int (length (e # es))" by simp
      have "all_len (metrics st') (n + int (length (e # es)))" using L unfolding e1 .
      moreover have "trace st' = trace st @ concat (map (epoch_calls lf opts nb ld) (e # es))"
        using A tr by simp
      ultimately show ?thesis by blast
    next
      fix k
      assume K: "k < length es"
        and A: "trace st' = trace st1 @ concat (map (epoch_calls lf opts nb ld) (take (Suc k) es)) @ [Print abort_message]"
        and L: "all_len (metrics st') (n + 1 + int (Suc k))"
      have e1: "n + 1 + int (Suc k) = n + int (Suc (Suc k))" by simp
      have "all_len (metrics st') (n + int (Suc (Suc k)))" using L unfolding e1 .
      moreover have "trace st' =
        trace st @ concat (map (epoch_calls lf opts nb ld) (take (Suc (Suc k)) (e # es))) @ [Print abort_message]"
        using A tr by simp
      moreover have "Suc k < length (e # es)" using K by simp
      ultimately show ?thesis by blast
    qed
  next
    case (Break st1)
    then have eq: "st' = st1" using Cons.prems by simp
    have "trace st1 = trace st @ epoch_calls lf opts nb ld e @ [Print abort_message]"
      using Break by (rule loop_body_Break)
    moreover have "all_len (metrics st1) (n + 1)"
      using spec_loop_body_len [OF um Cons.prems(2)] Break by blast
    ultimately have "trace st' =
        trace st @ concat (map (epoch_calls lf opts nb ld) (take (Suc 0) (e # es))) @ [Print abort_message]"
        and "all_len (metrics st') (n + int (Suc 0))"
      using eq by simp_all
    moreover have "0 < length (e # es)" by simp
    ultimately show ?thesis by blast
  next
    case (Fail err st1)
    then show ?thesis using Cons.prems by simp
  qed
qed

lemma take_upto: "0 < k \<Longrightarrow> int k \<le> nb + 1 \<Longrightarrow> take k [0..nb] = [0..int k - 1]"
proof -
  assume k: "0 < k" "int k \<le> nb + 1"
  then have "[0..nb] = [0..int k - 1] @ [int k - 1 + 1..nb]"
    by (intro upto_split2) auto
  moreover have "length [0..int k - 1] = k" using k by simp
  ultimately show ?thesis by (metis append_eq_conv_conj)
qed

lemma init_metric_spec_len: "all_len init_metric_spec 0"
  by (simp add: all_len_def init_metric_spec_def seq_len_def)

section \<open>A NaN loss ends the loop\<close>

lemma nan_not_Continue:
  assumes ev: "evaluate_epoch C lf ld e st = Inr st2"
    and nan: "latest (metrics st2) ''test'' ''loss'' = Inr NaN \<or>
              latest (metrics st2) ''train'' ''loss'' = Inr NaN"
  shows "loop_body C lf opts nb ld e st \<noteq> Continue st'"
proof (cases "train_epoch C lf opts nb e st2")
  case (Inl p)
  then show ?thesis using ev by (simp add: loop_body_def split: prod.splits)
next
  case (Inr st3)
  then have m: "metrics st3 = metrics st2" by (simp add: train_epoch_trace)
  have "nan_detected (metrics st2) \<noteq> Inr False"
    using nan by (auto simp: nan_detected_def split: sum.splits)
  then show ?thesis using ev Inr m
    by (auto simp: loop_body_def split: sum.splits bool.splits)
qed

text \<open>The definitions that a concrete run in the simulated environment unfolds.\<close>

lemmas sim_defs = sim_def select_dataset_def sizes_def
  construct_dataloaders_spec_def known_dataset_def DecorNet_spec_def loss_func_def optimizers_def fwd_optimizer_def
  torch_optim_SGD_def torch_optim_Adam_def seed_rngs_def
  loop_body_def evaluate_epoch_def train_epoch_def emit_def update_metrics_spec_def record_metric_def init_metric_spec_def
  nan_detected_def latest_def train_spec_def abort_message_def
  constant_loss_def nan_from_def start_def sim_lf_def sim_opts_def
  epoch_calls_def

section \<open>The set-up and the optimizers\<close>

lemma set_up_ok: "set_up C a w = (tr, Inr w3) \<Longrightarrow> tr = setup_calls a"
  by (auto simp: set_up_def setup_calls_def Let_def split: sum.splits)

lemma set_up_trace: "list_all (\<lambda>ev. \<not> loop_call ev \<and> ev \<noteq> Print abort_message) (fst (set_up C a w))"
  by (auto simp: set_up_def Let_def split: sum.splits)

lemma set_up_no_loop_call: "\<not> list_ex loop_call (fst (set_up C a w))"
  by (auto simp: set_up_def Let_def split: sum.splits)

lemma setup_calls_not_aborted: "\<not> aborted (setup_calls a)"
  by (simp add: aborted_def setup_calls_def)

lemma setup_calls_no_loop_call: "\<not> list_ex loop_call (setup_calls a)"
  by (simp add: setup_calls_def)

lemma setup_calls_carries: "list_all (carries lf opts) (setup_calls a)"
  by (simp add: setup_calls_def)

lemma set_up_not_aborted: "\<not> aborted (fst (set_up C a w))"
  using set_up_trace [of C a w] by (auto simp: aborted_def list_all_iff)

lemmas run_defs = sim_defs train_network_def set_up_def net_kwargs_def setup_calls_def
  small_args_def default_args_def upto.simps seq_len_def all_len_def aborted_def
  run_optimizers_def seed_accepted_def

text \<open>
  The three ways through \<^verbatim>\<open>train_network\<close>: the set-up raises; the construction of the
  optimizers raises; the loop is run.
\<close>

lemma train_network_set_up_failed:
  "snd (set_up C a w) = Inl err \<Longrightarrow> train_network C a w = (fst (set_up C a w), Inl err)"
  by (cases "set_up C a w") (simp add: train_network_def)

lemma train_network_optimizers_failed:
  "set_up C a w = (tr, Inr w3) \<Longrightarrow> optimizers C a w3 = Inl err \<Longrightarrow>
     train_network C a w = (tr, Inl err)"
  by (simp add: train_network_def)

lemma train_network_looped:
  "set_up C a w = (tr, Inr w3) \<Longrightarrow> optimizers C a w3 = Inr opts \<Longrightarrow>
   for_epochs C (loss_func (loss_func_type a)) opts (nb_epochs a) (loud a) [0..nb_epochs a]
     \<lparr>world = w3, metrics = init_metric C, trace = tr\<rparr> = (st, r) \<Longrightarrow>
   train_network C a w = (trace st, case r of None \<Rightarrow> Inr (metrics st) | Some err \<Rightarrow> Inl err)"
  by (cases r) (simp_all add: train_network_def)

lemma train_network_cases:
  "(\<exists>err. snd (set_up C a w) = Inl err \<and> train_network C a w = (fst (set_up C a w), Inl err)) \<or>
   (\<exists>w3 err. set_up C a w = (setup_calls a, Inr w3) \<and> optimizers C a w3 = Inl err \<and>
      train_network C a w = (setup_calls a, Inl err)) \<or>
   (\<exists>w3 opts st r. set_up C a w = (setup_calls a, Inr w3) \<and> optimizers C a w3 = Inr opts \<and>
      for_epochs C (loss_func (loss_func_type a)) opts (nb_epochs a) (loud a) [0..nb_epochs a]
        \<lparr>world = w3, metrics = init_metric C, trace = setup_calls a\<rparr> = (st, r) \<and>
      train_network C a w = (trace st, case r of None \<Rightarrow> Inr (metrics st) | Some err \<Rightarrow> Inl err))"
proof (cases "snd (set_up C a w)")
  case (Inl err)
  have "train_network C a w = (fst (set_up C a w), Inl err)"
    using Inl by (rule train_network_set_up_failed)
  with Inl have "snd (set_up C a w) = Inl err \<and> train_network C a w = (fst (set_up C a w), Inl err)"
    by (rule conjI)
  then show ?thesis by (intro disjI1 exI)
next
  case (Inr w3)
  then have "set_up C a w = (fst (set_up C a w), Inr w3)" by (cases "set_up C a w") simp
  then have su: "set_up C a w = (setup_calls a, Inr w3)" using set_up_ok by metis
  show ?thesis
  proof (cases "optimizers C a w3")
    case (Inl err)
    have "train_network C a w = (setup_calls a, Inl err)"
      using su Inl by (rule train_network_optimizers_failed)
    with su Inl have "set_up C a w = (setup_calls a, Inr w3) \<and> optimizers C a w3 = Inl err \<and>
          train_network C a w = (setup_calls a, Inl err)"
      by (intro conjI)
    then have "\<exists>w3 err. set_up C a w = (setup_calls a, Inr w3) \<and> optimizers C a w3 = Inl err \<and>
          train_network C a w = (setup_calls a, Inl err)"
      by (intro exI)
    then show ?thesis by (intro disjI2 disjI1)
  next
    case opts: (Inr opts)
    obtain st r where loop:
      "for_epochs C (loss_func (loss_func_type a)) opts (nb_epochs a) (loud a) [0..nb_epochs a]
         \<lparr>world = w3, metrics = init_metric C, trace = setup_calls a\<rparr> = (st, r)"
      by (cases "for_epochs C (loss_func (loss_func_type a)) opts (nb_epochs a) (loud a)
         [0..nb_epochs a] \<lparr>world = w3, metrics = init_metric C, trace = setup_calls a\<rparr>")
    have tn: "train_network C a w =
        (trace st, case r of None \<Rightarrow> Inr (metrics st) | Some err \<Rightarrow> Inl err)"
      using su opts loop by (rule train_network_looped)
    have "\<exists>w3 opts st r. set_up C a w = (setup_calls a, Inr w3) \<and> optimizers C a w3 = Inr opts \<and>
        for_epochs C (loss_func (loss_func_type a)) opts (nb_epochs a) (loud a) [0..nb_epochs a]
          \<lparr>world = w3, metrics = init_metric C, trace = setup_calls a\<rparr> = (st, r) \<and>
        train_network C a w = (trace st, case r of None \<Rightarrow> Inr (metrics st) | Some err \<Rightarrow> Inl err)"
      by (intro exI conjI) (rule su, rule opts, rule loop, rule tn)
    then show ?thesis by (intro disjI2)
  qed
qed

section \<open>What every call of a run carries\<close>

lemma train_network_carries:
  assumes ro: "run_optimizers C a w = Inr opts"
  shows "list_all (carries (loss_func (loss_func_type a)) opts) (fst (train_network C a w))"
  using train_network_cases [of C a w]
proof (elim disjE exE conjE)
  fix err
  assume "snd (set_up C a w) = Inl err"
  then show ?thesis using ro by (simp add: run_optimizers_def)
next
  fix w3 err
  assume "set_up C a w = (setup_calls a, Inr w3)" "optimizers C a w3 = Inl err"
  then show ?thesis using ro by (simp add: run_optimizers_def)
next
  fix w3 opts' st r
  assume su: "set_up C a w = (setup_calls a, Inr w3)" and op: "optimizers C a w3 = Inr opts'"
    and loop: "for_epochs C (loss_func (loss_func_type a)) opts' (nb_epochs a) (loud a) [0..nb_epochs a]
        \<lparr>world = w3, metrics = init_metric C, trace = setup_calls a\<rparr> = (st, r)"
    and tn: "train_network C a w = (trace st, case r of None \<Rightarrow> Inr (metrics st) | Some err \<Rightarrow> Inl err)"
  have eq: "opts' = opts" using ro su op by (simp add: run_optimizers_def)
  have "list_all (carries (loss_func (loss_func_type a)) opts') (trace st)"
    using for_epochs_carries [OF loop] by (simp add: setup_calls_carries)
  then show ?thesis using tn eq by simp
qed

lemma train_network_no_optimizers:
  assumes ro: "isl (run_optimizers C a w)"
  shows "\<not> list_ex loop_call (fst (train_network C a w))"
  using train_network_cases [of C a w]
proof (elim disjE exE conjE)
  fix err
  assume "train_network C a w = (fst (set_up C a w), Inl err)"
  then show ?thesis using set_up_no_loop_call [of C a w] by simp
next
  fix w3 err
  assume "train_network C a w = (setup_calls a, Inl err)"
  then show ?thesis using setup_calls_no_loop_call [of a] by simp
next
  fix w3 opts
  assume "set_up C a w = (setup_calls a, Inr w3)" "optimizers C a w3 = Inr opts"
  then show ?thesis using ro by (simp add: run_optimizers_def)
qed

lemma fwd_optimizer_not_decor: "fwd_optimizer C a w = Inr fwd \<Longrightarrow> \<not> over_decor_params fwd"
  by (auto simp: fwd_optimizer_def torch_optim_Adam_def torch_optim_SGD_def
      split: if_splits sum.splits list.splits)

lemma train_batches_single:
  "train_batches step [Some opt] bs w = Inr (fold (step opt) bs w)"
  by (induction bs arbitrary: w) simp_all

section \<open>The loss functions and the first call of the loop\<close>

lemma MSE_sum:
  assumes "map length input = map length onehot"
  shows "apply_loss MSE_lambda input target onehot =
           Inr (map (\<lambda>(x, y). \<Sum>(a, b)\<leftarrow>zip x y. (a - b)\<^sup>2) (zip input onehot))"
  using assms
  by (simp add: MSELoss_def squared_error_def torch_sum_axis1_def case_prod_unfold comp_def)

lemma loop_body_first:
  "loop_body C lf opts nb ld e st = Continue st' \<or> loop_body C lf opts nb ld e st = Break st' \<or>
   loop_body C lf opts nb ld e st = Fail err st' \<Longrightarrow>
     \<exists>suf. trace st' = trace st @ CallUpdateMetrics ''train'' lf e ld # suf"
  by (auto simp: loop_body_def emit_def split: sum.splits prod.splits bool.splits
      dest!: evaluate_epoch_trace train_epoch_trace evaluate_epoch_fail train_epoch_fail)

lemma for_epochs_extends:
  "for_epochs C lf opts nb ld es st = (st', r) \<Longrightarrow> \<exists>suf. trace st' = trace st @ suf"
  using for_epochs_trace [of C lf opts nb ld es st st' r] by auto

lemma for_epochs_first:
  assumes "for_epochs C lf opts nb ld (e # es) st = (st', r)"
  shows "\<exists>suf. trace st' = trace st @ CallUpdateMetrics ''train'' lf e ld # suf"
proof (cases "loop_body C lf opts nb ld e st")
  case (Continue st1)
  then obtain s1 where 1: "trace st1 = trace st @ CallUpdateMetrics ''train'' lf e ld # s1"
    using loop_body_first [of C lf opts nb ld e st st1] by blast
  have "for_epochs C lf opts nb ld es st1 = (st', r)" using assms Continue by simp
  then obtain s2 where "trace st' = trace st1 @ s2" using for_epochs_extends by blast
  then show ?thesis using 1 by simp
next
  case (Break st1)
  then show ?thesis using assms loop_body_first [of C lf opts nb ld e st st1] by auto
next
  case (Fail err st1)
  then show ?thesis using assms loop_body_first [of C lf opts nb ld e st st1 err] by auto
qed

section \<open>Errors raised before the loop\<close>

text \<open>
  The construction of the optimizers can end the run before the loop: a negative
  learning rate for the decorrelation optimizer is torch's ValueError at line 102, and a
  seed that numpy refuses is a ValueError at line 37, before any helper is called.
\<close>

lemma negative_decor_lr_raises:
  "train_network (sim (constant_loss (Num 1)))
     (small_args 1\<lparr>optimizer_type := ''RMSprop'', decorrelation_method := Some ''copi'',
                   decor_lr := - (1 / 1000)\<rparr>) [] =
   (setup_calls (small_args 1\<lparr>optimizer_type := ''RMSprop'', decorrelation_method := Some ''copi'',
                               decor_lr := - (1 / 1000)\<rparr>), Inl ValueError)"
  by (simp add: run_defs)

lemma negative_fwd_lr_raises:
  "snd (train_network (sim (constant_loss (Num 1)))
     (small_args 1\<lparr>loss_func_type := ''L1'', fwd_lr := - (1 / 100)\<rparr>) []) = Inl ValueError"
  by (simp add: run_defs)

lemma refused_seed_raises:
  "train_network (sim (constant_loss (Num 1))) (small_args 1\<lparr>seed := - 1\<rparr>) [] = ([], Inl ValueError)"
  by (simp add: run_defs)

section \<open>The claims\<close>

text \<open>
  C8: for every recognized dataset name the network is constructed with the sizes of
  the configuration table: MNIST gives input 28*28 and 10 classes, CIFAR10 input
  32*32*3 and 10 classes, CIFAR100 input 32*32*3 and 100 classes, TIN input 64*64*3 and
  200 classes.  Once the data loaders exist, the only constructor call of the set-up is
  the one with these keyword arguments.
\<close>

theorem dataset_sizes:
  assumes "seed_rngs C w (seed a) = Inr w0"
    and "construct_dataloaders C w0 (select_dataset (dataset a)) (batch_size a) (device a) = Inr w1"
  shows "fst (set_up C a w) = setup_calls a \<and>
         (dataset a = ''MNIST'' \<longrightarrow> in_size (net_kwargs a) = 28 * 28 \<and> out_size (net_kwargs a) = 10) \<and>
         (dataset a = ''CIFAR10'' \<longrightarrow> in_size (net_kwargs a) = 32 * 32 * 3 \<and> out_size (net_kwargs a) = 10) \<and>
         (dataset a = ''CIFAR100'' \<longrightarrow> in_size (net_kwargs a) = 32 * 32 * 3 \<and> out_size (net_kwargs a) = 100) \<and>
         (dataset a = ''TIN'' \<longrightarrow> in_size (net_kwargs a) = 64 * 64 * 3 \<and> out_size (net_kwargs a) = 200)"
  using assms
  by (auto simp: set_up_def setup_calls_def net_kwargs_def select_dataset_def sizes_def Let_def
      split: sum.splits)

theorem dataset_sizes_witness:
  "fst (set_up (sim (constant_loss (Num 1))) (default_args\<lparr>dataset := ''TIN''\<rparr>) [])
     = setup_calls (default_args\<lparr>dataset := ''TIN''\<rparr>) \<and>
   in_size (net_kwargs (default_args\<lparr>dataset := ''TIN''\<rparr>)) = 12288 \<and>
   out_size (net_kwargs (default_args\<lparr>dataset := ''TIN''\<rparr>)) = 200 \<and>
   in_size (net_kwargs default_args) = 784 \<and> out_size (net_kwargs default_args) = 10"
  using dataset_sizes [of "sim (constant_loss (Num 1))" "[]" "default_args\<lparr>dataset := ''TIN''\<rparr>" "[]" "[]"]
    dataset_sizes [of "sim (constant_loss (Num 1))" "[]" "default_args" "[]" "[]"]
  by (simp add: sim_def default_args_def construct_dataloaders_spec_def known_dataset_def
      select_dataset_def seed_rngs_def)

text \<open>
  C4: with \<^verbatim>\<open>decorrelation_method\<close> set to "foldiak", \<^verbatim>\<open>run\<close> ends right after
  \<^verbatim>\<open>wandb.init\<close>: by \<^verbatim>\<open>exit()\<close>, or with the error of \<^verbatim>\<open>wandb.init\<close>.  No call of the
  set-up or of the loop is made and no metrics are printed.
\<close>

theorem foldiak_exits:
  assumes "decorrelation_method config = Some ''foldiak''"
  shows "run C config w =
           ([CallWandbInit], case wandb_init C w of Inl err \<Rightarrow> Raised err | Inr w1 \<Rightarrow> Exited)"
  using assms by (simp add: run_def split: sum.splits)

theorem foldiak_exits_witness:
  "run (sim (constant_loss (Num 1))) (default_args\<lparr>decorrelation_method := Some ''foldiak''\<rparr>) []
     = ([CallWandbInit], Exited)"
  using foldiak_exits [of "default_args\<lparr>decorrelation_method := Some ''foldiak''\<rparr>"
      "sim (constant_loss (Num 1))" "[]"]
  by (simp add: sim_def)

text \<open>
  C1, as amended: if, after the evaluation of an epoch, the most recent train loss or test
  loss is NaN, the loop ends in that pass through its body, whatever epochs remain: the
  run from epoch \<open>e\<close> on is the run of epoch \<open>e\<close> alone.  When no error is raised the
  trace ends with the calls of epoch \<open>e\<close> and the abort message, and the metrics are
  those of that evaluation.
\<close>

theorem nan_stops_loop:
  assumes ev: "evaluate_epoch C lf ld e st = Inr st2"
    and nan: "latest (metrics st2) ''test'' ''loss'' = Inr NaN \<or>
              latest (metrics st2) ''train'' ''loss'' = Inr NaN"
  shows "for_epochs C lf opts nb ld (e # es) st = for_epochs C lf opts nb ld [e] st \<and>
         (snd (for_epochs C lf opts nb ld (e # es) st) = None \<longrightarrow>
            trace (fst (for_epochs C lf opts nb ld (e # es) st))
              = trace st @ epoch_calls lf opts nb ld e @ [Print abort_message] \<and>
            metrics (fst (for_epochs C lf opts nb ld (e # es) st)) = metrics st2)"
proof (cases "loop_body C lf opts nb ld e st")
  case (Continue st')
  then show ?thesis using nan_not_Continue [OF ev nan] by blast
next
  case (Break st')
  have tr: "trace st' = trace st @ epoch_calls lf opts nb ld e @ [Print abort_message]"
    using Break by (rule loop_body_Break)
  have "metrics st' = metrics st2"
    using Break ev
    by (auto simp: loop_body_def emit_def split: sum.splits prod.splits bool.splits
        dest: train_epoch_trace)
  then show ?thesis using Break tr by simp
next
  case (Fail err st')
  then show ?thesis by simp
qed

theorem nan_stops_loop_witness:
  "for_epochs (sim (nan_from 0)) sim_lf sim_opts 2 True [0, 1, 2] start
     = for_epochs (sim (nan_from 0)) sim_lf sim_opts 2 True [0] start \<and>
   trace (fst (for_epochs (sim (nan_from 0)) sim_lf sim_opts 2 True [0, 1, 2] start))
     = [CallUpdateMetrics ''train'' sim_lf 0 True, CallUpdateMetrics ''test'' sim_lf 0 False,
        CallTrain sim_opts 0 sim_lf, Print abort_message]"
  using nan_stops_loop [of "sim (nan_from 0)" sim_lf True 0 start
      "projr (evaluate_epoch (sim (nan_from 0)) sim_lf True 0 start)" sim_opts 2 "[1, 2]"]
  by (simp add: sim_defs)

text \<open>
  C1 as stated fails for an infinite loss: with a train loss and a test loss of
  \<open>+\<infinity>\<close> recorded at epoch 0, the loop does not abort and goes on to evaluate epoch 1.
\<close>

theorem infinite_loss_goes_on:
  "latest (metrics (projr (evaluate_epoch (sim (constant_loss PosInf)) sim_lf True 0 start)))
       ''test'' ''loss'' = Inr PosInf \<and>
   latest (metrics (projr (evaluate_epoch (sim (constant_loss PosInf)) sim_lf True 0 start)))
       ''train'' ''loss'' = Inr PosInf \<and>
   \<not> is_finite PosInf \<and>
   snd (for_epochs (sim (constant_loss PosInf)) sim_lf sim_opts 1 True [0, 1] start) = None \<and>
   trace (fst (for_epochs (sim (constant_loss PosInf)) sim_lf sim_opts 1 True [0, 1] start))
     = [CallUpdateMetrics ''train'' sim_lf 0 True, CallUpdateMetrics ''test'' sim_lf 0 False,
        CallTrain sim_opts 0 sim_lf,
        CallUpdateMetrics ''train'' sim_lf 1 True, CallUpdateMetrics ''test'' sim_lf 1 False]"
  by (simp add: sim_defs)

text \<open>
  C9: if the evaluation of an epoch \<open>e < nb_epochs\<close> records a NaN train loss or test
  loss, the training pass of epoch \<open>e\<close> is still made, and the world is the one it
  leaves, before the abort message is printed and the loop is left.
\<close>

theorem nan_epoch_still_trains:
  assumes "e < nb"
    and ev: "evaluate_epoch C lf ld e st = Inr st2"
    and nan: "latest (metrics st2) ''test'' ''loss'' = Inr NaN \<or>
              (\<exists>x. latest (metrics st2) ''test'' ''loss'' = Inr x) \<and>
              latest (metrics st2) ''train'' ''loss'' = Inr NaN"
    and tr: "train C (world st2) opts e lf = Inr w3"
  shows "for_epochs C lf opts nb ld (e # es) st =
           (st2\<lparr>world := w3, trace := trace st2 @ [CallTrain opts e lf, Print abort_message]\<rparr>, None)"
proof -
  have te: "train_epoch C lf opts nb e st2 = Inr (st2\<lparr>world := w3, trace := trace st2 @ [CallTrain opts e lf]\<rparr>)"
    using assms(1) tr by (simp add: train_epoch_def emit_def)
  have "nan_detected (metrics st2) = Inr True"
    using nan by (auto simp: nan_detected_def split: sum.splits)
  then have "loop_body C lf opts nb ld e st =
      Break (st2\<lparr>world := w3, trace := trace st2 @ [CallTrain opts e lf, Print abort_message]\<rparr>)"
    using ev te by (simp add: loop_body_def emit_def)
  then show ?thesis by simp
qed

theorem nan_epoch_still_trains_witness:
  "for_epochs (sim (nan_from 0)) sim_lf sim_opts 2 True [0, 1, 2] start =
     (\<lparr>world = [FwdParams],
       metrics = metrics (projr (evaluate_epoch (sim (nan_from 0)) sim_lf True 0 start)),
       trace = [CallUpdateMetrics ''train'' sim_lf 0 True, CallUpdateMetrics ''test'' sim_lf 0 False,
                CallTrain sim_opts 0 sim_lf, Print abort_message]\<rparr>, None)"
  using nan_epoch_still_trains [of 0 2 "sim (nan_from 0)" sim_lf True start
      "projr (evaluate_epoch (sim (nan_from 0)) sim_lf True 0 start)" sim_opts "[FwdParams]" "[1, 2]"]
  by (simp add: sim_defs)

text \<open>
  C2: under the metric tracker of the specification, a run of \<open>nb_epochs \<ge> 0\<close> epochs
  that returns without having aborted returns metrics whose four sequences (train and
  test, loss and accuracy) have length \<open>nb_epochs + 1\<close>.  Its calls are, for every epoch
  from 0 to \<open>nb_epochs\<close> in turn, the evaluation of the training data, the evaluation
  of the test data and then, except after the last epoch, the training pass; so epoch 0
  is evaluated before any training.  Every pass through the loop body that goes on
  lengthens each sequence by exactly one.
\<close>

theorem completed_run_lengths:
  fixes C :: "'w collab"
  assumes nb: "0 \<le> nb_epochs a"
    and im: "init_metric C = init_metric_spec"
    and um: "update_metrics C = update_metrics_spec ev"
    and run: "train_network C a w = (tr, Inr m)"
    and na: "\<not> aborted tr"
  shows "all_len m (nb_epochs a + 1) \<and>
         (\<exists>opts. run_optimizers C a w = Inr opts \<and>
            tr = setup_calls a @
                 concat (map (epoch_calls (loss_func (loss_func_type a)) opts
                                (nb_epochs a) (loud a)) [0..nb_epochs a])) \<and>
         (\<forall>lf opts ld e st st' n.
            all_len (metrics st) n \<longrightarrow> loop_body C lf opts (nb_epochs a) ld e st = Continue st'
              \<longrightarrow> all_len (metrics st') (n + 1))"
  using train_network_cases [of C a w]
proof (elim disjE exE conjE)
  fix err
  assume "train_network C a w = (fst (set_up C a w), Inl err)"
  then show ?thesis using run by simp
next
  fix w3 err
  assume "train_network C a w = (setup_calls a, Inl err)"
  then show ?thesis using run by simp
next
  fix w3 :: 'w and opts st r
  let ?lf = "loss_func (loss_func_type a)"
  let ?st0 = "\<lparr>world = w3, metrics = init_metric C, trace = setup_calls a\<rparr>"
  assume su: "set_up C a w = (setup_calls a, Inr w3)" and op: "optimizers C a w3 = Inr opts"
    and loop0: "for_epochs C ?lf opts (nb_epochs a) (loud a) [0..nb_epochs a] ?st0 = (st, r)"
    and tn: "train_network C a w = (trace st, case r of None \<Rightarrow> Inr (metrics st) | Some err \<Rightarrow> Inl err)"
  have r: "r = None" using tn run by (cases r) simp_all
  have res: "tr = trace st" "m = metrics st" using tn run r by simp_all
  have loop: "for_epochs C ?lf opts (nb_epochs a) (loud a) [0..nb_epochs a] ?st0 = (st, None)"
    using loop0 r by simp
  have ro: "run_optimizers C a w = Inr opts" using su op by (simp add: run_optimizers_def)
  have len0: "all_len (metrics ?st0) 0" by (simp add: im init_metric_spec_len)
  from spec_for_epochs_len [OF um loop len0]
  have "trace st = trace ?st0 @ concat (map (epoch_calls ?lf opts (nb_epochs a) (loud a)) [0..nb_epochs a]) \<and>
        all_len (metrics st) (0 + int (length [0..nb_epochs a]))"
  proof (elim disjE exE conjE)
    fix k
    assume "trace st = trace ?st0 @
        concat (map (epoch_calls ?lf opts (nb_epochs a) (loud a)) (take (Suc k) [0..nb_epochs a])) @ [Print abort_message]"
    then have "aborted (trace st)" by (simp add: aborted_def)
    then show ?thesis using na res by simp
  qed simp
  moreover have "int (length [0..nb_epochs a]) = nb_epochs a + 1" using nb by simp
  moreover have "\<forall>lf opts ld e st st' n.
            all_len (metrics st) n \<longrightarrow> loop_body C lf opts (nb_epochs a) ld e st = Continue st'
              \<longrightarrow> all_len (metrics st') (n + 1)"
    using spec_loop_body_len [OF um] by blast
  ultimately show ?thesis using res ro by simp
qed

theorem completed_run_lengths_witness:
  "all_len (projr (snd (train_network (sim (constant_loss (Num 1))) (small_args 2) []))) 3 \<and>
   fst (train_network (sim (constant_loss (Num 1))) (small_args 2) []) =
     setup_calls (small_args 2) @
     [CallUpdateMetrics ''train'' sim_lf 0 True, CallUpdateMetrics ''test'' sim_lf 0 False,
      CallTrain sim_opts 0 sim_lf,
      CallUpdateMetrics ''train'' sim_lf 1 True, CallUpdateMetrics ''test'' sim_lf 1 False,
      CallTrain sim_opts 1 sim_lf,
      CallUpdateMetrics ''train'' sim_lf 2 True, CallUpdateMetrics ''test'' sim_lf 2 False]"
  using completed_run_lengths [of "small_args 2" "sim (constant_loss (Num 1))"
      "\<lambda>w phase. (constant_loss (Num 1) (length w), Num 0)" "[]"
      "fst (train_network (sim (constant_loss (Num 1))) (small_args 2) [])"
      "projr (snd (train_network (sim (constant_loss (Num 1))) (small_args 2) []))"]
  by (simp add: run_defs)

text \<open>
  C3, as amended: under the metric tracker of the specification, a run that aborts on a
  NaN loss returns the metrics collected so far; it aborted at some epoch \<open>e\<close> with
  \<open>0 \<le> e \<le> nb_epochs\<close>, after the calls of the epochs 0 to \<open>e\<close>, and each of the four
  sequences has length \<open>e + 1\<close>, which is at most \<open>nb_epochs + 1\<close>.
\<close>

theorem aborted_run_lengths:
  fixes C :: "'w collab"
  assumes im: "init_metric C = init_metric_spec"
    and um: "update_metrics C = update_metrics_spec ev"
    and run: "train_network C a w = (tr, res)"
    and ab: "aborted tr"
  shows "\<exists>m e opts. res = Inr m \<and> 0 \<le> e \<and> e \<le> nb_epochs a \<and> all_len m (e + 1) \<and>
           run_optimizers C a w = Inr opts \<and>
           tr = setup_calls a @
                concat (map (epoch_calls (loss_func (loss_func_type a)) opts
                               (nb_epochs a) (loud a)) [0..e])
                @ [Print abort_message]"
  using train_network_cases [of C a w]
proof (elim disjE exE conjE)
  fix err
  assume "train_network C a w = (fst (set_up C a w), Inl err)"
  then have "tr = fst (set_up C a w)" using run by simp
  then show ?thesis using ab set_up_not_aborted [of C a w] by simp
next
  fix w3 err
  assume "train_network C a w = (setup_calls a, Inl err)"
  then have "tr = setup_calls a" using run by simp
  then show ?thesis using ab setup_calls_not_aborted [of a] by simp
next
  fix w3 :: 'w and opts st r
  let ?lf = "loss_func (loss_func_type a)"
  let ?st0 = "\<lparr>world = w3, metrics = init_metric C, trace = setup_calls a\<rparr>"
  assume su: "set_up C a w = (setup_calls a, Inr w3)" and op: "optimizers C a w3 = Inr opts"
    and loop: "for_epochs C ?lf opts (nb_epochs a) (loud a) [0..nb_epochs a] ?st0 = (st, r)"
    and tn: "train_network C a w = (trace st, case r of None \<Rightarrow> Inr (metrics st) | Some err \<Rightarrow> Inl err)"
  have tr: "tr = trace st" using tn run by simp
  have ro: "run_optimizers C a w = Inr opts" using su op by (simp add: run_optimizers_def)
  have "\<not> aborted (trace ?st0)" using setup_calls_not_aborted by simp
  then have r: "r = None"
    using for_epochs_aborted [OF loop] ab tr by blast
  have res: "res = Inr (metrics st)"
    using run tn r by simp
  have len0: "all_len (metrics ?st0) 0" by (simp add: im init_metric_spec_len)
  from spec_for_epochs_len [OF um loop [unfolded r] len0]
  obtain k where k: "k < length [0..nb_epochs a]"
    and trk: "trace st = trace ?st0 @
        concat (map (epoch_calls ?lf opts (nb_epochs a) (loud a)) (take (Suc k) [0..nb_epochs a])) @ [Print abort_message]"
    and lenk: "all_len (metrics st) (0 + int (Suc k))"
  proof (elim disjE exE conjE)
    assume "trace st = trace ?st0 @ concat (map (epoch_calls ?lf opts (nb_epochs a) (loud a)) [0..nb_epochs a])"
    then have "aborted (trace st) = aborted (trace ?st0)" by (simp only: aborted_calls)
    then have False using ab tr setup_calls_not_aborted by simp
    then show thesis ..
  qed blast
  have kb: "int (Suc k) \<le> nb_epochs a + 1" using k by simp
  have tk: "take (Suc k) [0..nb_epochs a] = [0..int k]"
    using take_upto [of "Suc k" "nb_epochs a"] kb by simp
  have "res = Inr (metrics st) \<and> 0 \<le> int k \<and> int k \<le> nb_epochs a \<and> all_len (metrics st) (int k + 1) \<and>
      run_optimizers C a w = Inr opts \<and>
      tr = setup_calls a @ concat (map (epoch_calls ?lf opts (nb_epochs a) (loud a)) [0..int k]) @ [Print abort_message]"
    using res kb lenk trk tk tr ro by (simp add: add.commute)
  then show ?thesis by blast
qed

theorem aborted_run_lengths_witness:
  "all_len (projr (snd (train_network (sim (nan_from 1)) (small_args 3) []))) 2 \<and>
   \<not> isl (snd (train_network (sim (nan_from 1)) (small_args 3) [])) \<and>
   fst (train_network (sim (nan_from 1)) (small_args 3) []) =
     setup_calls (small_args 3) @
     [CallUpdateMetrics ''train'' sim_lf 0 True, CallUpdateMetrics ''test'' sim_lf 0 False,
      CallTrain sim_opts 0 sim_lf,
      CallUpdateMetrics ''train'' sim_lf 1 True, CallUpdateMetrics ''test'' sim_lf 1 False,
      CallTrain sim_opts 1 sim_lf, Print abort_message]"
proof -
  have ab: "aborted (fst (train_network (sim (nan_from 1)) (small_args 3) []))"
    by (simp add: run_defs)
  have um: "update_metrics (sim (nan_from 1)) = update_metrics_spec (\<lambda>w phase. (nan_from 1 (length w), Num 0))"
    and im: "init_metric (sim (nan_from 1)) = init_metric_spec"
    by (simp_all add: sim_def)
  have run: "train_network (sim (nan_from 1)) (small_args 3) [] =
      (fst (train_network (sim (nan_from 1)) (small_args 3) []),
       snd (train_network (sim (nan_from 1)) (small_args 3) []))"
    by simp
  from aborted_run_lengths [OF im um run ab]
  show ?thesis by (simp add: run_defs)
qed

text \<open>
  C3 as stated fails when the NaN loss shows at the last epoch: with \<open>nb_epochs = 0\<close>
  and a NaN loss at epoch 0 the run aborts, and the sequences returned have length
  \<open>nb_epochs + 1\<close>, not less.
\<close>

theorem abort_at_last_epoch_full_length:
  "aborted (fst (train_network (sim (nan_from 0)) (small_args 0) [])) \<and>
   \<not> isl (snd (train_network (sim (nan_from 0)) (small_args 0) [])) \<and>
   all_len (projr (snd (train_network (sim (nan_from 0)) (small_args 0) [])))
     (nb_epochs (small_args 0) + 1)"
  by (simp add: run_defs)

text \<open>
  C5: with the checks that the specification gives the data loaders and the network
  constructor, an unknown dataset name, a negative number of hidden layers or a
  non-positive hidden layer size makes \<^verbatim>\<open>train_network\<close> fail during the set-up: no call
  of \<^verbatim>\<open>update_metrics\<close> or \<^verbatim>\<open>train\<close> is made.  The failure is the configuration error
  whenever the seed is one that the seeding of lines 36-37 accepts; a seed that it
  refuses ends the run even earlier.
\<close>

theorem configuration_errors_precede_training:
  assumes cd: "construct_dataloaders C = construct_dataloaders_spec load"
    and dn: "DecorNet C = DecorNet_spec build"
    and bad: "dataset a \<notin> {''MNIST'', ''CIFAR10'', ''CIFAR100'', ''TIN''} \<or>
              n_hidden_layers a < 0 \<or> hidden_layer_size a \<le> 0"
  shows "isl (snd (train_network C a w)) \<and>
         \<not> list_ex loop_call (fst (train_network C a w)) \<and>
         (seed_accepted (seed a) \<longrightarrow> snd (train_network C a w) = Inl ConfigurationError)"
proof -
  have "isl (snd (set_up C a w)) \<and>
        (seed_accepted (seed a) \<longrightarrow> snd (set_up C a w) = Inl ConfigurationError)"
    using bad
    by (auto simp: set_up_def seed_rngs_def seed_accepted_def cd dn construct_dataloaders_spec_def
        DecorNet_spec_def known_dataset_def select_dataset_def net_kwargs_def Let_def
        split: sum.splits)
  then obtain err where e: "snd (set_up C a w) = Inl err"
    and ce: "seed_accepted (seed a) \<longrightarrow> err = ConfigurationError"
    by (cases "snd (set_up C a w)") auto
  have "train_network C a w = (fst (set_up C a w), Inl err)"
    using e by (rule train_network_set_up_failed)
  then show ?thesis using ce set_up_no_loop_call [of C a w] by simp
qed

theorem configuration_errors_precede_training_witness:
  "train_network (sim (constant_loss (Num 1))) (default_args\<lparr>dataset := ''SVHN''\<rparr>) [] =
     ([CallConstructDataloaders (Name ''SVHN'') 256 ''cuda''], Inl ConfigurationError) \<and>
   snd (train_network (sim (constant_loss (Num 1))) (default_args\<lparr>n_hidden_layers := - 1\<rparr>) []) =
     Inl ConfigurationError \<and>
   snd (train_network (sim (constant_loss (Num 1))) (default_args\<lparr>hidden_layer_size := 0\<rparr>) []) =
     Inl ConfigurationError"
  using configuration_errors_precede_training [of "sim (constant_loss (Num 1))" "\<lambda>w tv bs dev. w"
      "\<lambda>w kw. w" "default_args\<lparr>dataset := ''SVHN''\<rparr>" "[]"]
    configuration_errors_precede_training [of "sim (constant_loss (Num 1))" "\<lambda>w tv bs dev. w"
      "\<lambda>w kw. w" "default_args\<lparr>n_hidden_layers := - 1\<rparr>" "[]"]
    configuration_errors_precede_training [of "sim (constant_loss (Num 1))" "\<lambda>w tv bs dev. w"
      "\<lambda>w kw. w" "default_args\<lparr>hidden_layer_size := 0\<rparr>" "[]"]
  by (simp add: run_defs)

text \<open>
  C6: with \<^verbatim>\<open>decorrelation_method = None\<close> the list of optimizers is the forward optimizer
  alone, so no optimizer over the decorrelation parameters is created and the
  decorrelation parameters are not read; every call of \<^verbatim>\<open>train\<close> in the run is handed
  that one-element list; and the training pass of the specification then takes, for
  each batch in turn, the step of the forward optimizer and no other.
\<close>

theorem no_decorrelation_optimizer:
  assumes "decorrelation_method a = None"
  shows "optimizers C a w' =
           (case fwd_optimizer C a w' of Inl err \<Rightarrow> Inl err | Inr fwd \<Rightarrow> Inr [fwd]) \<and>
         (\<forall>opts. optimizers C a w' = Inr opts \<longrightarrow> \<not> list_ex over_decor_params opts) \<and>
         (\<forall>opts. run_optimizers C a w = Inr opts \<longrightarrow>
            list_all (carries (loss_func (loss_func_type a)) opts) (fst (train_network C a w))) \<and>
         (\<forall>opt opts. fwd_optimizer C a w' = Inr (Some opt) \<longrightarrow> optimizers C a w' = Inr opts \<longrightarrow>
            train_spec step n_batches w'' opts e lf = Inr (fold (step opt) [0..<n_batches w''] w''))"
proof -
  have o: "optimizers C a w' =
           (case fwd_optimizer C a w' of Inl err \<Rightarrow> Inl err | Inr fwd \<Rightarrow> Inr [fwd])"
    using assms by (simp add: optimizers_def Let_def split: sum.splits)
  have "\<forall>opts. optimizers C a w' = Inr opts \<longrightarrow> \<not> list_ex over_decor_params opts"
    using fwd_optimizer_not_decor [of C a w'] by (auto simp: o split: sum.splits)
  moreover have "\<forall>opts. run_optimizers C a w = Inr opts \<longrightarrow>
            list_all (carries (loss_func (loss_func_type a)) opts) (fst (train_network C a w))"
    using train_network_carries [of C a w] by blast
  moreover have "\<forall>opt opts. fwd_optimizer C a w' = Inr (Some opt) \<longrightarrow> optimizers C a w' = Inr opts \<longrightarrow>
            train_spec step n_batches w'' opts e lf = Inr (fold (step opt) [0..<n_batches w''] w'')"
    by (auto simp: o train_spec_def train_batches_single)
  ultimately show ?thesis using o by blast
qed

theorem no_decorrelation_optimizer_witness:
  "optimizers (sim (constant_loss (Num 1))) (small_args 1) [] = Inr sim_opts \<and>
   fst (train_network (sim (constant_loss (Num 1))) (small_args 1) []) =
     setup_calls (small_args 1) @
     [CallUpdateMetrics ''train'' sim_lf 0 True, CallUpdateMetrics ''test'' sim_lf 0 False,
      CallTrain sim_opts 0 sim_lf,
      CallUpdateMetrics ''train'' sim_lf 1 True, CallUpdateMetrics ''test'' sim_lf 1 False] \<and>
   train (sim (constant_loss (Num 1))) [] sim_opts 0 sim_lf = Inr [FwdParams]"
  using no_decorrelation_optimizer [of "small_args 1" "sim (constant_loss (Num 1))" "[]" "[]"
      "\<lambda>opt b w. w @ [params_of opt]" "\<lambda>w. 1" "[]" 0 sim_lf]
  by (simp add: run_defs)

text \<open>
  C7: the loss function is chosen from \<^verbatim>\<open>loss_func_type\<close> before the loop and every call
  of \<^verbatim>\<open>update_metrics\<close> and \<^verbatim>\<open>train\<close> in the run carries that same function; a run whose
  optimizers cannot be built makes no such call.  For "CCE" it is the cross-entropy of
  the scores and the raw integer labels, whatever the one-hot targets are; for "MSE" it
  is, per sample, the sum over the output classes of the squared difference between
  score and one-hot target, whatever the raw labels are.
\<close>

theorem loss_strategy_fixed:
  "loss_func ''CCE'' = Some CCE_lambda \<and>
   loss_func ''MSE'' = Some MSE_lambda \<and>
   apply_loss CCE_lambda input target onehot = CrossEntropyLoss input target \<and>
   apply_loss CCE_lambda input target onehot = apply_loss CCE_lambda input target onehot' \<and>
   (map length input = map length onehot \<longrightarrow>
      apply_loss MSE_lambda input target onehot =
        Inr (map (\<lambda>(x, y). \<Sum>(a, b)\<leftarrow>zip x y. (a - b)\<^sup>2) (zip input onehot))) \<and>
   apply_loss MSE_lambda input target onehot = apply_loss MSE_lambda input target' onehot \<and>
   (\<forall>opts. run_optimizers C a w = Inr opts \<longrightarrow>
      list_all (carries (loss_func (loss_func_type a)) opts) (fst (train_network C a w))) \<and>
   (isl (run_optimizers C a w) \<longrightarrow> \<not> list_ex loop_call (fst (train_network C a w)))"
  using train_network_carries [of C a w] train_network_no_optimizers [of C a w]
    MSE_sum [of input onehot target]
  by (simp add: loss_func_def)

theorem loss_strategy_fixed_witness:
  "apply_loss MSE_lambda [[1, 0, 0], [0, 1, 0]] [1, 1] [[0, 1, 0], [0, 1, 0]] = Inr [2, 0] \<and>
   apply_loss MSE_lambda [[1, 0]] [] [[0], [1]] = Inr [1, 1] \<and>
   apply_loss MSE_lambda [[1, 2, 3]] [] [[1, 2]] = Inl BackendError \<and>
   apply_loss CCE_lambda [[0, 0]] [1] [[0, 1]] = Inr [ln 2] \<and>
   apply_loss CCE_lambda [[0, 0]] [- 100] [[0, 1]] = Inr [0] \<and>
   loss_func (loss_func_type (small_args 1)) = Some CCE_lambda \<and>
   fst (train_network (sim (constant_loss (Num 1))) (small_args 1) []) =
     setup_calls (small_args 1) @
     [CallUpdateMetrics ''train'' (Some CCE_lambda) 0 True,
      CallUpdateMetrics ''test'' (Some CCE_lambda) 0 False,
      CallTrain sim_opts 0 (Some CCE_lambda),
      CallUpdateMetrics ''train'' (Some CCE_lambda) 1 True,
      CallUpdateMetrics ''test'' (Some CCE_lambda) 1 False]"
  using loss_strategy_fixed [of "[[1, 0, 0], [0, 1, 0]]" "[1, 1]" "[[0, 1, 0], [0, 1, 0]]"
      "[[0, 1, 0], [0, 1, 0]]" "[1, 1]" "sim (constant_loss (Num 1))" "small_args 1" "[]"]
    loss_strategy_fixed [of "[[0, 0]]" "[1]" "[[0, 1]]" "[[0, 1]]" "[1]"
      "sim (constant_loss (Num 1))" "small_args 1" "[]"]
  by (simp add: run_defs CrossEntropyLoss_def MSELoss_def rectangular_def broadcast_dim_def
      expand_def squared_error_def torch_sum_axis1_def ln_div)

text \<open>
  C10: an \<^verbatim>\<open>optimizer_type\<close> other than "Adam" and "SGD" leaves the forward optimizer
  \<^verbatim>\<open>None\<close>, at the head of the optimizer list, and without decorrelation the list is built
  without any call that could raise; a \<^verbatim>\<open>loss_func_type\<close> other than "CCE" and "MSE" leaves
  the loss function \<^verbatim>\<open>None\<close>.  Neither raises: once the set-up has succeeded and the
  optimizers that are constructed have been, the loop is entered, its first call being the
  evaluation of epoch 0 with that loss function, and every call of the run carries that
  loss function and that optimizer list.
\<close>

theorem unknown_types_stay_none:
  assumes su: "snd (set_up C a w) = Inr w3"
    and op: "optimizers C a w3 = Inr opts"
    and nb: "0 \<le> nb_epochs a"
  shows "(optimizer_type a \<noteq> ''Adam'' \<and> optimizer_type a \<noteq> ''SGD'' \<longrightarrow>
            fwd_optimizer C a w3 = Inr None \<and> hd opts = None) \<and>
         (optimizer_type a \<noteq> ''Adam'' \<and> optimizer_type a \<noteq> ''SGD'' \<and> decorrelation_method a = None \<longrightarrow>
            optimizers C a w' = Inr [None]) \<and>
         (loss_func_type a \<noteq> ''CCE'' \<and> loss_func_type a \<noteq> ''MSE'' \<longrightarrow>
            loss_func (loss_func_type a) = None) \<and>
         take 3 (fst (train_network C a w)) =
           setup_calls a @ [CallUpdateMetrics ''train'' (loss_func (loss_func_type a)) 0 (loud a)] \<and>
         list_all (carries (loss_func (loss_func_type a)) opts) (fst (train_network C a w))"
proof -
  let ?lf = "loss_func (loss_func_type a)"
  obtain tr0 where s: "set_up C a w = (tr0, Inr w3)" using su by (cases "set_up C a w") simp
  have tr0: "tr0 = setup_calls a" using s by (rule set_up_ok)
  let ?st0 = "\<lparr>world = w3, metrics = init_metric C, trace = tr0\<rparr>"
  have up: "[0..nb_epochs a] = 0 # [0 + 1..nb_epochs a]" using nb by (rule upto_rec1)
  obtain st' r where loop: "for_epochs C ?lf opts (nb_epochs a) (loud a) (0 # [0 + 1..nb_epochs a]) ?st0 = (st', r)"
    by (cases "for_epochs C ?lf opts (nb_epochs a) (loud a) (0 # [0 + 1..nb_epochs a]) ?st0")
  obtain suf where "trace st' = trace ?st0 @ CallUpdateMetrics ''train'' ?lf 0 (loud a) # suf"
    using for_epochs_first [OF loop] by blast
  moreover have "fst (train_network C a w) = trace st'"
    using s op loop up by (simp add: train_network_def split: option.splits)
  ultimately have first: "take 3 (fst (train_network C a w)) =
           setup_calls a @ [CallUpdateMetrics ''train'' ?lf 0 (loud a)]"
    using tr0 by (simp add: setup_calls_def)
  have ro: "run_optimizers C a w = Inr opts" using su op by (simp add: run_optimizers_def)
  have hd: "optimizer_type a \<noteq> ''Adam'' \<and> optimizer_type a \<noteq> ''SGD'' \<longrightarrow>
            fwd_optimizer C a w3 = Inr None \<and> hd opts = None"
    using op by (auto simp: fwd_optimizer_def optimizers_def Let_def split: sum.splits if_splits)
  have none: "optimizer_type a \<noteq> ''Adam'' \<and> optimizer_type a \<noteq> ''SGD'' \<and> decorrelation_method a = None \<longrightarrow>
            optimizers C a w' = Inr [None]"
    by (simp add: fwd_optimizer_def optimizers_def)
  show ?thesis
    using first hd none train_network_carries [OF ro]
    by (simp add: loss_func_def)
qed

theorem unknown_types_stay_none_witness:
  "fst (train_network (sim (constant_loss (Num 1)))
          (small_args 1\<lparr>optimizer_type := ''RMSprop'', loss_func_type := ''L1''\<rparr>) []) =
     setup_calls (small_args 1\<lparr>optimizer_type := ''RMSprop'', loss_func_type := ''L1''\<rparr>) @
     [CallUpdateMetrics ''train'' None 0 True, CallUpdateMetrics ''test'' None 0 False,
      CallTrain [None] 0 None] \<and>
   snd (train_network (sim (constant_loss (Num 1)))
          (small_args 1\<lparr>optimizer_type := ''RMSprop'', loss_func_type := ''L1''\<rparr>) []) =
     Inl AttributeError"
  using unknown_types_stay_none [of "sim (constant_loss (Num 1))"
      "small_args 1\<lparr>optimizer_type := ''RMSprop'', loss_func_type := ''L1''\<rparr>" "[]" "[]" "[None]" "[]"]
  by (simp add: run_defs)

end
